theory Spec2Isabelle
  imports Complex_Main
begin

section \<open>Text as Python sees it\<close>

text \<open>
  A Python 3 \<^verbatim>\<open>str\<close> is a sequence of Unicode code points, so text is a list of
  natural numbers here. \<open>u\<close> turns an ASCII literal into such a list.
\<close>

type_synonym ustring = "nat list"

definition u :: "string \<Rightarrow> ustring" where
  "u s = map of_char s"

text \<open>
  \<^verbatim>\<open>Py_UNICODE_ISSPACE\<close>, which both \<^verbatim>\<open>str.strip()\<close> and the pattern \<^verbatim>\<open>\s\<close> of
  a Unicode pattern use.
\<close>

definition is_space :: "nat \<Rightarrow> bool" where
  "is_space c \<longleftrightarrow>
     (9 \<le> c \<and> c \<le> 13) \<or> (28 \<le> c \<and> c \<le> 32) \<or> c = 133 \<or> c = 160 \<or> c = 5760 \<or>
     (8192 \<le> c \<and> c \<le> 8202) \<or> c = 8232 \<or> c = 8233 \<or> c = 8239 \<or> c = 8287 \<or> c = 12288"

text \<open>
  \<^verbatim>\<open>\d\<close>: the decimal digits. The ASCII digits are modelled; the digits of other
  scripts (Unicode category Nd), which depend on the Unicode version of the interpreter,
  are not.
\<close>

definition is_digit :: "nat \<Rightarrow> bool" where
  "is_digit c \<longleftrightarrow> 48 \<le> c \<and> c \<le> 57"

text \<open>
  Case folding as \<^verbatim>\<open>re.IGNORECASE\<close> applies it to the letters of the two patterns
  (all ASCII): the ASCII capitals, and the four code points outside ASCII that the \<^verbatim>\<open>re\<close>
  module treats as case variants of \<^verbatim>\<open>i\<close>, \<^verbatim>\<open>s\<close> and \<^verbatim>\<open>k\<close> (U+0130, U+0131, U+017F,
  U+212A).
\<close>

definition fold_case :: "nat \<Rightarrow> nat" where
  "fold_case c =
     (if 65 \<le> c \<and> c \<le> 90 then c + 32
      else if c = 304 \<or> c = 305 then 105
      else if c = 383 then 115
      else if c = 8490 then 107
      else c)"

section \<open>A backtracking matcher for the constructs of parser.py\<close>

text \<open>The named groups of \<^verbatim>\<open>decimal_degree_re\<close> and \<^verbatim>\<open>degree_min_sec_re\<close>.\<close>

datatype gname =
    G_latdir | G_latdir2 | G_longdir | G_longdir2
  | G_latitude | G_latpoint | G_longitude | G_longpoint
  | G_latsign | G_latdeg | G_degmark | G_degpd | G_latminsec | G_latmin | G_latsec
  | G_latdecsec | G_longsign | G_longdeg | G_longminsec | G_longmin | G_longsec
  | G_longdecsec

text \<open>An item of a character class: a character, a range, \<^verbatim>\<open>\d\<close> or \<^verbatim>\<open>\s\<close>.\<close>

datatype item = Chr nat | Rng nat nat | Dig | Spc

text \<open>
  The pattern constructs the two expressions use. \<open>Set neg items\<close> is a character class
  (\<open>neg\<close> for \<^verbatim>\<open>[^...]\<close>), \<open>Rep neg items lo hi\<close> a greedy repetition of a class
  (\<^verbatim>\<open>\d{1,2}\<close>; \<open>hi = None\<close> for \<^verbatim>\<open>+\<close>), \<open>Opt\<close> the greedy \<^verbatim>\<open>?\<close>, \<open>Grp\<close> a named
  group, \<open>Cond g yes no\<close> the conditional \<^verbatim>\<open>(?(g)yes|no)\<close>. A group without a name is
  written as its body: no conditional refers to one, and \<^verbatim>\<open>groupdict()\<close> omits them.
\<close>

datatype re =
    Eps
  | Lit nat
  | Str ustring
  | Set bool "item list"
  | Rep bool "item list" nat "nat option"
  | Seq re re
  | Alt re re
  | Opt re
  | Grp gname re
  | Cond gname re re
  | Bol
  | Eol

type_synonym groups = "gname \<Rightarrow> ustring option"

text \<open>A matcher state: the position in the text, the text from there on, the groups set so far.\<close>

type_synonym mstate = "nat \<times> ustring \<times> groups"

fun item_has :: "item \<Rightarrow> nat \<Rightarrow> bool" where
  "item_has (Chr c) x \<longleftrightarrow> fold_case x = fold_case c"
| "item_has (Rng a b) x \<longleftrightarrow> a \<le> x \<and> x \<le> b"
| "item_has Dig x \<longleftrightarrow> is_digit x"
| "item_has Spc x \<longleftrightarrow> is_space x"

definition in_set :: "bool \<Rightarrow> item list \<Rightarrow> nat \<Rightarrow> bool" where
  "in_set neg items x \<longleftrightarrow> (list_ex (\<lambda>i. item_has i x) items \<noteq> neg)"

fun match_str :: "ustring \<Rightarrow> ustring \<Rightarrow> bool" where
  "match_str [] xs \<longleftrightarrow> True"
| "match_str (c # cs) [] \<longleftrightarrow> False"
| "match_str (c # cs) (x # xs) \<longleftrightarrow> fold_case x = fold_case c \<and> match_str cs xs"

text \<open>
  \<open>rmatch r s\<close> lists the states in which \<open>r\<close> can end when started in \<open>s\<close>, in the
  order in which the backtracking engine tries them: the left alternative before the right
  one, the longer repetition before the shorter, the optional part before its absence.
\<close>

fun rmatch :: "re \<Rightarrow> mstate \<Rightarrow> mstate list" where
  "rmatch Eps s = [s]"
| "rmatch (Lit c) (pos, rest, g) =
     (case rest of
        [] \<Rightarrow> []
      | x # xs \<Rightarrow> if fold_case x = fold_case c then [(pos + 1, xs, g)] else [])"
| "rmatch (Str cs) (pos, rest, g) =
     (if match_str cs rest then [(pos + length cs, drop (length cs) rest, g)] else [])"
| "rmatch (Set neg items) (pos, rest, g) =
     (case rest of
        [] \<Rightarrow> []
      | x # xs \<Rightarrow> if in_set neg items x then [(pos + 1, xs, g)] else [])"
| "rmatch (Rep neg items lo hi) (pos, rest, g) =
     (let n = length (takeWhile (in_set neg items) rest);
          k = (case hi of None \<Rightarrow> n | Some h \<Rightarrow> min h n)
      in map (\<lambda>j. (pos + j, drop j rest, g)) (rev [lo ..< Suc k]))"
| "rmatch (Seq r1 r2) s = concat (map (rmatch r2) (rmatch r1 s))"
| "rmatch (Alt r1 r2) s = rmatch r1 s @ rmatch r2 s"
| "rmatch (Opt r) s = rmatch r s @ [s]"
| "rmatch (Grp n r) (pos, rest, g) =
     map (\<lambda>(pos', rest', g'). (pos', rest', g'(n := Some (take (pos' - pos) rest))))
       (rmatch r (pos, rest, g))"
| "rmatch (Cond n yes no) (pos, rest, g) =
     (if g n \<noteq> None then rmatch yes (pos, rest, g) else rmatch no (pos, rest, g))"
| "rmatch Bol (pos, rest, g) = (if pos = 0 then [(pos, rest, g)] else [])"
| "rmatch Eol (pos, rest, g) = (if rest = [] \<or> rest = [10] then [(pos, rest, g)] else [])"

text \<open>A match object: \<^verbatim>\<open>start()\<close>, \<^verbatim>\<open>end()\<close>, \<^verbatim>\<open>group()\<close> and \<^verbatim>\<open>groupdict()\<close>.\<close>

record rematch =
  m_start :: nat
  m_end :: nat
  m_group :: ustring
  m_groupdict :: groups

text \<open>The attempt at one position: the first state the engine reaches, if any.\<close>

definition match_at :: "re \<Rightarrow> nat \<Rightarrow> ustring \<Rightarrow> rematch option" where
  "match_at r pos rest =
     (case rmatch r (pos, rest, \<lambda>_. None) of
        [] \<Rightarrow> None
      | (pos', rest', g) # _ \<Rightarrow>
          Some \<lparr>m_start = pos, m_end = pos', m_group = take (pos' - pos) rest, m_groupdict = g\<rparr>)"

text \<open>\<^verbatim>\<open>pattern.match(string)\<close>: the attempt at position 0.\<close>

definition re_match :: "re \<Rightarrow> ustring \<Rightarrow> rematch option" where
  "re_match r s = match_at r 0 s"

section \<open>parser.py\<close>

text \<open>
  Both expressions are compiled with \<^verbatim>\<open>re.VERBOSE | re.UNICODE | re.IGNORECASE\<close>: white
  space in the pattern is ignored unless escaped or inside a class, a \<^verbatim>\<open>#\<close> starts a
  comment, and letters match in either case. (The ranges of the patterns hold digits only,
  so \<open>Rng\<close> compares code points as they are.)
\<close>

definition seqs :: "re list \<Rightarrow> re" where
  "seqs rs = foldr Seq rs Eps"

definition sp :: re where \<comment> \<open>\<^verbatim>\<open>\ \<close>\<close>
  "sp = Lit 32"

definition osp :: re where \<comment> \<open>\<^verbatim>\<open>\ ?\<close>\<close>
  "osp = Opt (Lit 32)"

definition digit_range :: "nat \<Rightarrow> nat \<Rightarrow> re" where \<comment> \<open>\<^verbatim>\<open>[a-b]\<close> for digits \<open>a\<close>, \<open>b\<close>\<close>
  "digit_range a b = Set False [Rng (48 + a) (48 + b)]"

definition ns_word :: re where \<comment> \<open>\<^verbatim>\<open>NORTH|SOUTH|[NS]\<close>\<close>
  "ns_word = Alt (Str (u ''NORTH'')) (Alt (Str (u ''SOUTH'')) (Set False [Chr 78, Chr 83]))"

definition ew_word :: re where \<comment> \<open>\<^verbatim>\<open>EAST|WEST|[EW]\<close>\<close>
  "ew_word = Alt (Str (u ''EAST'')) (Alt (Str (u ''WEST'')) (Set False [Chr 69, Chr 87]))"

definition ns_sign :: re where \<comment> \<open>\<^verbatim>\<open>NORTH|SOUTH|[NS-]\<close>\<close>
  "ns_sign = Alt (Str (u ''NORTH'')) (Alt (Str (u ''SOUTH'')) (Set False [Chr 78, Chr 83, Chr 45]))"

definition ew_sign :: re where \<comment> \<open>\<^verbatim>\<open>EAST|WEST|[EW-]\<close>\<close>
  "ew_sign = Alt (Str (u ''EAST'')) (Alt (Str (u ''WEST'')) (Set False [Chr 69, Chr 87, Chr 45]))"

definition long_degrees :: re where \<comment> \<open>\<^verbatim>\<open>((1(([0-7][0-9]|80))|(0?[0-9][0-9])))\<close>\<close>
  "long_degrees =
     Alt (Seq (Lit 49) (Alt (Seq (digit_range 0 7) (digit_range 0 9)) (Str (u ''80''))))
         (Seq (Opt (Lit 48)) (Seq (digit_range 0 9) (digit_range 0 9)))"

definition degrees_word :: re where \<comment> \<open>\<^verbatim>\<open>(degrees|\<degree>)?\<close>, the degree sign being U+00B0\<close>
  "degrees_word = Opt (Alt (Str (u ''degrees'')) (Lit 176))"

subsection \<open>decimal_degree_re\<close>

definition decimal_degree_re :: re where
  "decimal_degree_re = seqs [
     Bol,
     Opt (Lit 40),
     Opt (Grp G_latdir ns_sign), Opt (Set False [Spc]),
     Grp G_latitude (seqs [
       Alt (Seq (digit_range 0 8) (digit_range 0 9)) (Str (u ''90'')),
       Opt (Grp G_latpoint (Lit 46)),
       Cond G_latpoint (Rep False [Dig] 1 None) (Set True [Dig])]),
     Opt (Set False [Spc]),
     degrees_word, Opt (Set False [Spc]),
     Opt (Grp G_latdir2 ns_word),
     Opt (Rep False [Spc, Chr 44] 1 None),
     Opt (Grp G_longdir ew_sign), Opt (Set False [Spc]),
     Grp G_longitude (seqs [
       long_degrees,
       Opt (Grp G_longpoint (Lit 46)),
       Cond G_longpoint (Rep False [Dig] 1 None) (Set True [Dig])]),
     Opt (Set False [Spc]),
     degrees_word, Opt (Set False [Spc]),
     Opt (Grp G_longdir2 ew_word),
     Opt (Lit 41),
     Eol]"

subsection \<open>degree_min_sec_re\<close>

definition deg_mark :: re where \<comment> \<open>\<^verbatim>\<open>\ ?(\<ordmasculine>|\<degree>)\ ?\<close>: U+00BA or U+00B0\<close>
  "deg_mark = seqs [osp, Alt (Lit 186) (Lit 176), osp]"

definition minutes_re :: re where \<comment> \<open>\<^verbatim>\<open>([0-5]?)[0-9]\<close>\<close>
  "minutes_re = Seq (Opt (digit_range 0 5)) (digit_range 0 9)"

definition minute_mark :: re where \<comment> \<open>\<^verbatim>\<open>(\ |(?(degmark)('|"|\ MINUTES,?)\ ?))?\<close>\<close>
  "minute_mark =
     Opt (Alt sp
       (Cond G_degmark
          (Seq (Alt (Lit 39) (Alt (Lit 34) (Seq (Str (u '' MINUTES'')) (Opt (Lit 44))))) osp)
          Eps))"

definition seconds_re :: "gname \<Rightarrow> gname \<Rightarrow> re" where
  \<comment> \<open>\<^verbatim>\<open>(((?(degpd)\.?)(?P<sec>(\d{1,2}(\.\d+)?)))|(?P<decsec>\.\d{1,3}))?\<close>\<close>
  "seconds_re sec decsec =
     Opt (Alt
       (Seq (Cond G_degpd (Opt (Lit 46)) Eps)
            (Grp sec (Seq (Rep False [Dig] 1 (Some 2)) (Opt (Seq (Lit 46) (Rep False [Dig] 1 None))))))
       (Grp decsec (Seq (Lit 46) (Rep False [Dig] 1 (Some 3)))))"

definition second_mark :: re where \<comment> \<open>\<^verbatim>\<open>(?(degmark)("|'|\ SECONDS\ )?)\<close>\<close>
  "second_mark =
     Cond G_degmark (Opt (Alt (Lit 34) (Alt (Lit 39) (Str (u '' SECONDS ''))))) Eps"

definition degree_min_sec_re :: re where
  "degree_min_sec_re = seqs [
     Bol,
     Opt (Lit 40),
     \<comment> \<open>Latitude direction, first position\<close>
     Opt (Alt (Seq (Grp G_latdir ns_word) osp) (Grp G_latsign (Lit 45))),
     \<comment> \<open>Latitude degrees\<close>
     Grp G_latdeg (Alt (Seq (Opt (digit_range 0 8)) (digit_range 0 9)) (Str (u ''90''))),
     \<comment> \<open>Separator of degrees and minutes\<close>
     Opt (Alt sp
       (Grp G_degmark
          (Alt deg_mark (Alt (Grp G_degpd (Lit 46)) (Alt (Lit 45) (Str (u '' DEGREES, ''))))))),
     Opt (Grp G_latminsec (seqs [
       Grp G_latmin minutes_re,
       minute_mark,
       seconds_re G_latsec G_latdecsec,
       second_mark])),
     \<comment> \<open>Latitude direction, second position\<close>
     osp, Opt (Grp G_latdir2 ns_word),
     \<comment> \<open>Latitude/longitude delimiter\<close>
     Opt (Alt (seqs [osp, Set False [Chr 32, Chr 47], osp]) (Str (u '', ''))),
     \<comment> \<open>Longitude direction, first position\<close>
     Alt (Cond G_latdir (Seq (Grp G_longdir ew_word) osp) Eps) (Opt (Grp G_longsign (Lit 45))),
     \<comment> \<open>Longitude degrees\<close>
     Grp G_longdeg long_degrees,
     Opt (Alt sp
       (Cond G_degmark
          (Alt deg_mark (Alt (Lit 46) (Alt (Lit 45) (Str (u '' DEGREES, '')))))
          Eps)),
     \<comment> \<open>Minutes and seconds of the longitude, only if the latitude had them\<close>
     Cond G_latminsec
       (seqs [
          Grp G_longminsec (seqs [
            Grp G_longmin minutes_re,
            minute_mark,
            seconds_re G_longsec G_longdecsec]),
          second_mark])
       Eps,
     \<comment> \<open>Longitude direction, second position\<close>
     Cond G_latdir2 (Seq osp (Grp G_longdir2 ew_word)) Eps,
     Opt (Lit 41),
     Eol]"

section \<open>The decimal module, as far as functions.py uses it\<close>

text \<open>
  A finite \<^verbatim>\<open>Decimal\<close> is a sign (\<open>True\<close> for negative), a coefficient and an exponent;
  \<open>NaN\<close> is the quiet NaN that a context without traps returns for an invalid operation.
  Arithmetic follows the algorithms of the module under a context with precision \<open>p\<close> and
  rounding \<^verbatim>\<open>ROUND_HALF_EVEN\<close> (the rounding of both \<^verbatim>\<open>ExtendedContext\<close> and the default
  context). The exponent limits of the contexts (\<^verbatim>\<open>Emax = 999999\<close>) are out of reach for
  the numerals accepted by \<open>parse_decimal\<close> below, and are not modelled.
\<close>

datatype decimal = Fin bool nat int | NaN

fun ndigits :: "nat \<Rightarrow> nat" where
  "ndigits n = (if n < 10 then 1 else Suc (ndigits (n div 10)))"

fun digits_of :: "nat \<Rightarrow> ustring" where \<comment> \<open>\<^verbatim>\<open>str(n)\<close>\<close>
  "digits_of n = (if n < 10 then [48 + n] else digits_of (n div 10) @ [48 + n mod 10])"

declare ndigits.simps [simp del] digits_of.simps [simp del]

text \<open>Drop the last \<open>k\<close> digits of \<open>c\<close>, rounding half to even.\<close>

definition round_half_even :: "nat \<Rightarrow> nat \<Rightarrow> nat" where
  "round_half_even c k =
     (let q = c div 10 ^ k; r = c mod 10 ^ k
      in if 2 * r > 10 ^ k \<or> (2 * r = 10 ^ k \<and> odd q) then q + 1 else q)"

text \<open>\<^verbatim>\<open>Decimal._fix\<close>: round the coefficient to the precision of the context.\<close>

fun dec_fix :: "nat \<Rightarrow> decimal \<Rightarrow> decimal" where
  "dec_fix p NaN = NaN"
| "dec_fix p (Fin s c e) =
     (if c = 0 then Fin s c e
      else if p < ndigits c then
        (let k = ndigits c - p; c' = round_half_even c k
         in if p < ndigits c' then Fin s (c' div 10) (e + int k + 1) else Fin s c' (e + int k))
      else Fin s c e)"

text \<open>\<^verbatim>\<open>Decimal._rescale\<close>: the same value at exponent \<open>q\<close>, padded with zeros or rounded.\<close>

fun rescale :: "decimal \<Rightarrow> int \<Rightarrow> decimal" where
  "rescale NaN q = NaN"
| "rescale (Fin s c e) q =
     (if c = 0 then Fin s 0 q
      else if q \<le> e then Fin s (c * 10 ^ nat (e - q)) q
      else Fin s (round_half_even c (nat (q - e))) q)"

text \<open>
  \<^verbatim>\<open>_normalize\<close>: bring two non-zero operands (coefficient and exponent) to one exponent;
  an operand too small to influence the rounded sum is replaced by a 1 at a higher exponent.
\<close>

definition normalize_ops :: "nat \<Rightarrow> nat \<times> int \<Rightarrow> nat \<times> int \<Rightarrow> (nat \<times> int) \<times> (nat \<times> int)" where
  "normalize_ops p op1 op2 =
     (let swap = snd op1 < snd op2;
          tmp = (if swap then op2 else op1);
          other = (if swap then op1 else op2);
          ex = snd tmp + min (- 1) (int (ndigits (fst tmp)) - int p - 2);
          other' = (if int (ndigits (fst other)) + snd other - 1 < ex then (1, ex) else other);
          tmp' = (fst tmp * 10 ^ nat (snd tmp - snd other'), snd other')
      in if swap then (other', tmp') else (tmp', other'))"

text \<open>\<^verbatim>\<open>Decimal.__add__\<close>\<close>

fun dec_add :: "nat \<Rightarrow> decimal \<Rightarrow> decimal \<Rightarrow> decimal" where
  "dec_add p (Fin s1 c1 e1) (Fin s2 c2 e2) =
     (let ex = min e1 e2 in
      if c1 = 0 \<and> c2 = 0 then dec_fix p (Fin (s1 \<and> s2) 0 ex)
      else if c1 = 0 then dec_fix p (rescale (Fin s2 c2 e2) (max ex (e2 - int p - 1)))
      else if c2 = 0 then dec_fix p (rescale (Fin s1 c1 e1) (max ex (e1 - int p - 1)))
      else
        (let (op1, op2) = normalize_ops p (c1, e1) (c2, e2) in
         if s1 \<noteq> s2 then
           (if fst op1 = fst op2 then dec_fix p (Fin False 0 ex)
            else if fst op1 < fst op2 then dec_fix p (Fin s2 (fst op2 - fst op1) (snd op1))
            else dec_fix p (Fin s1 (fst op1 - fst op2) (snd op1)))
         else dec_fix p (Fin s1 (fst op1 + fst op2) (snd op1))))"
| "dec_add p _ _ = NaN"

text \<open>\<^verbatim>\<open>Decimal.__mul__\<close>\<close>

fun dec_mul :: "nat \<Rightarrow> decimal \<Rightarrow> decimal \<Rightarrow> decimal" where
  "dec_mul p (Fin s1 c1 e1) (Fin s2 c2 e2) = dec_fix p (Fin (s1 \<noteq> s2) (c1 * c2) (e1 + e2))"
| "dec_mul p _ _ = NaN"

text \<open>
  The loop of \<^verbatim>\<open>__truediv__\<close> for an exact quotient: strip trailing zeros while the
  exponent is below the ideal one.
\<close>

function strip_zeros :: "nat \<Rightarrow> int \<Rightarrow> int \<Rightarrow> nat \<times> int" where
  "strip_zeros c e ideal =
     (if e < ideal \<and> c mod 10 = 0 then strip_zeros (c div 10) (e + 1) ideal else (c, e))"
  by pat_completeness auto
termination
  by (relation "measure (\<lambda>(c, e, ideal). nat (ideal - e))") auto

declare strip_zeros.simps [simp del]

text \<open>
  \<^verbatim>\<open>Decimal.__truediv__\<close>. functions.py divides by the constants 60 and 100 only; the
  quotient by zero (an infinity or a NaN in \<^verbatim>\<open>ExtendedContext\<close>) is not modelled and stands
  as \<open>NaN\<close>.
\<close>

fun dec_div :: "nat \<Rightarrow> decimal \<Rightarrow> decimal \<Rightarrow> decimal" where
  "dec_div p (Fin s1 c1 e1) (Fin s2 c2 e2) =
     (if c2 = 0 then NaN
      else if c1 = 0 then dec_fix p (Fin (s1 \<noteq> s2) 0 (e1 - e2))
      else
        (let shift = int (ndigits c2) - int (ndigits c1) + int p + 1;
             ex = e1 - e2 - shift;
             num = (if 0 \<le> shift then c1 * 10 ^ nat shift else c1);
             den = (if 0 \<le> shift then c2 else c2 * 10 ^ nat (- shift));
             coeff = num div den;
             remainder = num mod den
         in if remainder \<noteq> 0
            then dec_fix p (Fin (s1 \<noteq> s2) (if coeff mod 5 = 0 then coeff + 1 else coeff) ex)
            else (let (c', e') = strip_zeros coeff ex (e1 - e2) in dec_fix p (Fin (s1 \<noteq> s2) c' e'))))"
| "dec_div p _ _ = NaN"

text \<open>\<^verbatim>\<open>d > n\<close> for an integer \<open>n \<ge> 0\<close>; a comparison with NaN is false without traps.\<close>

fun dec_gt :: "decimal \<Rightarrow> nat \<Rightarrow> bool" where
  "dec_gt NaN n \<longleftrightarrow> False"
| "dec_gt (Fin s c e) n \<longleftrightarrow>
     (if s then False
      else if 0 \<le> e then n < c * 10 ^ nat e
      else n * 10 ^ nat (- e) < c)"

text \<open>
  \<^verbatim>\<open>Decimal.quantize\<close> to the exponent \<open>q\<close> in a context without traps: the rounded value,
  or NaN when it needs more digits than the precision.
\<close>

fun quantize :: "nat \<Rightarrow> decimal \<Rightarrow> int \<Rightarrow> decimal" where
  "quantize p NaN q = NaN"
| "quantize p (Fin s c e) q =
     (if c = 0 then Fin s 0 q
      else if int p < int (ndigits c) + e - q then NaN
      else (case rescale (Fin s c e) q of
              NaN \<Rightarrow> NaN
            | Fin s' c' e' \<Rightarrow> if p < ndigits c' then NaN else Fin s' c' e'))"

text \<open>\<^verbatim>\<open>Decimal.__str__\<close>\<close>

definition signed_str :: "int \<Rightarrow> ustring" where \<comment> \<open>\<^verbatim>\<open>"%+d" % n\<close>\<close>
  "signed_str n = (if n < 0 then 45 # digits_of (nat (- n)) else 43 # digits_of (nat n))"

fun dec_str :: "decimal \<Rightarrow> ustring" where
  "dec_str NaN = u ''NaN''"
| "dec_str (Fin s c e) =
     (let ds = digits_of c;
          n = int (length ds);
          leftdigits = e + n;
          dotplace = (if e \<le> 0 \<and> - 6 < leftdigits then leftdigits else 1);
          intpart = (if dotplace \<le> 0 then [48]
                     else if n \<le> dotplace then ds @ replicate (nat (dotplace - n)) 48
                     else take (nat dotplace) ds);
          fracpart = (if dotplace \<le> 0 then 46 # replicate (nat (- dotplace)) 48 @ ds
                      else if n \<le> dotplace then []
                      else 46 # drop (nat dotplace) ds);
          expo = (if leftdigits = dotplace then [] else 69 # signed_str (leftdigits - dotplace))
      in (if s then [45] else []) @ intpart @ fracpart @ expo)"

text \<open>
  \<^verbatim>\<open>Decimal(string)\<close>. The constructor strips white space, removes underscores and reads
  a sign, digits with an optional fraction and an optional exponent, or a special value. The
  model reads the plain numerals; exponent notation, \<^verbatim>\<open>Infinity\<close>, \<^verbatim>\<open>NaN\<close> and numerals of
  more than 100000 characters are \<open>Unmodelled\<close>, anything else is \<open>Malformed\<close>.
\<close>

datatype parsed = Number decimal | Unmodelled | Malformed

definition strip :: "ustring \<Rightarrow> ustring" where \<comment> \<open>\<^verbatim>\<open>str.strip()\<close>\<close>
  "strip s = rev (dropWhile is_space (rev (dropWhile is_space s)))"

definition digits_val :: "ustring \<Rightarrow> nat" where \<comment> \<open>\<^verbatim>\<open>int(digits)\<close>\<close>
  "digits_val ds = foldl (\<lambda>a d. 10 * a + (d - 48)) 0 ds"

definition is_special :: "ustring \<Rightarrow> bool" where
  \<comment> \<open>\<^verbatim>\<open>Inf(inity)?\<close> or \<^verbatim>\<open>s?NaN\d*\<close>, in any case\<close>
  "is_special b \<longleftrightarrow>
     (let l = map fold_case b;
          l' = (if take 1 l = u ''s'' then drop 1 l else l)
      in l = u ''inf'' \<or> l = u ''infinity'' \<or>
         (take 3 l' = u ''nan'' \<and> list_all is_digit (drop 3 l')))"

definition is_exponent :: "ustring \<Rightarrow> bool" where \<comment> \<open>\<^verbatim>\<open>E[-+]?\d+\<close>\<close>
  "is_exponent t \<longleftrightarrow>
     (case t of
        [] \<Rightarrow> False
      | x # xs \<Rightarrow> fold_case x = 101 \<and>
          (let ds = (case xs of [] \<Rightarrow> [] | y # ys \<Rightarrow> if y = 45 \<or> y = 43 then ys else xs)
           in ds \<noteq> [] \<and> list_all is_digit ds))"

definition parse_decimal :: "ustring \<Rightarrow> parsed" where
  "parse_decimal v =
     (let t = filter (\<lambda>c. c \<noteq> 95) (strip v);
          neg = (take 1 t = [45]);
          b = (if take 1 t = [45] \<or> take 1 t = [43] then drop 1 t else t);
          ip = takeWhile is_digit b;
          r1 = dropWhile is_digit b;
          fp = (if take 1 r1 = [46] then takeWhile is_digit (drop 1 r1) else []);
          r2 = (if take 1 r1 = [46] then dropWhile is_digit (drop 1 r1) else r1)
      in if 100000 < length v then Unmodelled
         else if is_special b then Unmodelled
         else if ip = [] \<and> fp = [] then Malformed
         else if r2 = [] then Number (Fin neg (digits_val (ip @ fp)) (- int (length fp)))
         else if is_exponent r2 then Unmodelled
         else Malformed)"

section \<open>functions.py\<close>

datatype error =
    AttributeError  \<comment> \<open>\<^verbatim>\<open>match.groupdict()\<close> on \<^verbatim>\<open>None\<close>\<close>
  | TypeError  \<comment> \<open>\<^verbatim>\<open>Decimal(None)\<close>\<close>
  | InvalidOperation  \<comment> \<open>\<^verbatim>\<open>decimal.InvalidOperation\<close>, trapped by the default context\<close>
  | UnmodelledDecimal  \<comment> \<open>a numeral outside \<open>parse_decimal\<close>'s model\<close>

subsection \<open>_normalize_string\<close>

text \<open>
  \<^verbatim>\<open>MINUTE_CHARACTERS_RE\<close> and \<^verbatim>\<open>SECOND_CHARACTERS_RE\<close> come from \<^verbatim>\<open>geolucidate.constants\<close>,
  which is not among the sources. They are character classes, so \<^verbatim>\<open>re.sub\<close> replaces each
  character of the class on its own; the normalizer takes the two classes as parameters.
\<close>

definition sub_class :: "(nat \<Rightarrow> bool) \<Rightarrow> nat \<Rightarrow> ustring \<Rightarrow> ustring" where
  \<comment> \<open>\<^verbatim>\<open>re.sub(cls, c, string)\<close> for a character class\<close>
  "sub_class cls c s = map (\<lambda>x. if cls x then c else x) s"

definition normalize_with :: "(nat \<Rightarrow> bool) \<Rightarrow> (nat \<Rightarrow> bool) \<Rightarrow> ustring \<Rightarrow> ustring" where
  "normalize_with minute_cls second_cls string =
     sub_class second_cls 34 (sub_class minute_cls 39 (strip string))"

text \<open>
  Modelled from the spec: the two classes of \<^verbatim>\<open>geolucidate.constants\<close>, missing from the
  sources. Single quotes and primes are the apostrophe, the prime U+2032, the grave accent
  (backtick) U+0060 and the acute accent U+00B4; double quotes and double primes are the
  quotation mark, the double prime U+2033 and the curly quotes U+201C and U+201D. (A double
  backtick cannot reach the second substitution: the first one has replaced both.)
\<close>

definition MINUTE_CHARACTERS :: "nat \<Rightarrow> bool" where
  "MINUTE_CHARACTERS c \<longleftrightarrow> c \<in> set [39, 8242, 96, 180]"

definition SECOND_CHARACTERS :: "nat \<Rightarrow> bool" where
  "SECOND_CHARACTERS c \<longleftrightarrow> c \<in> set [34, 8243, 8220, 8221]"

definition normalize_string :: "ustring \<Rightarrow> ustring" where
  "normalize_string = normalize_with MINUTE_CHARACTERS SECOND_CHARACTERS"

subsection \<open>_cleanup\<close>

text \<open>Python's \<^verbatim>\<open>x or y\<close> on values that are \<^verbatim>\<open>None\<close> or a string: \<^verbatim>\<open>None\<close> and \<^verbatim>\<open>''\<close> are false.\<close>

definition truthy :: "ustring option \<Rightarrow> bool" where
  "truthy x \<longleftrightarrow> x \<noteq> None \<and> x \<noteq> Some []"

definition py_or :: "ustring option \<Rightarrow> ustring option \<Rightarrow> ustring option" where
  "py_or x y = (if truthy x then x else y)"

text \<open>
  \<^verbatim>\<open>s.upper()[0]\<close> for a non-empty \<open>s\<close>: the capital of the first character. The mapping
  covers the characters a direction token can start with (the ASCII letters, U+017F for
  \<^verbatim>\<open>S\<close>, and the minus sign); any other character is left as it is.
\<close>

definition upper_char :: "nat \<Rightarrow> nat" where
  "upper_char c = (if 97 \<le> c \<and> c \<le> 122 then c - 32 else if c = 383 then 83 else c)"

definition upper0 :: "ustring \<Rightarrow> ustring" where
  "upper0 s = map upper_char (take 1 s)"

text \<open>The list \<^verbatim>\<open>_cleanup\<close> returns, as a record of its eight positions.\<close>

record fields =
  latdir :: "ustring option"
  latdeg :: "ustring option"
  latmin :: ustring
  latsec :: ustring
  longdir :: "ustring option"
  longdeg :: "ustring option"
  longmin :: ustring
  longsec :: ustring

definition or_00 :: "ustring option \<Rightarrow> ustring" where \<comment> \<open>\<^verbatim>\<open>x or '00'\<close>\<close>
  "or_00 x = (if truthy x then the x else u ''00'')"

definition cleanup :: "groups \<Rightarrow> fields" where
  "cleanup parts =
     (let latsign = parts G_latsign;
          longsign = parts G_longsign;
          latdir0 = py_or (parts G_latdir) (parts G_latdir2);
          longdir0 = py_or (parts G_longdir) (parts G_longdir2);
          latdir1 = (if truthy latdir0 then Some (upper0 (the latdir0))
                     else if latsign = Some [45] then Some [83] else latdir0);
          longdir1 = (if truthy longdir0 then Some (upper0 (the longdir0))
                      else if longsign = Some [45] then Some [87] else longdir0);
          latmin0 = or_00 (parts G_latmin);
          longmin0 = or_00 (parts G_longmin);
          latdecsec = parts G_latdecsec;
          longdecsec = parts G_longdecsec;
          both = (truthy latdecsec \<and> truthy longdecsec)
      in \<lparr>latdir = latdir1,
          latdeg = parts G_latdeg,
          latmin = (if both then latmin0 @ the latdecsec else latmin0),
          latsec = (if both then u ''00'' else or_00 (parts G_latsec)),
          longdir = longdir1,
          longdeg = parts G_longdeg,
          longmin = (if both then longmin0 @ the longdecsec else longmin0),
          longsec = (if both then u ''00'' else or_00 (parts G_longsec))\<rparr>)"

subsection \<open>_convert_to_lat_lng\<close>

text \<open>
  \<^verbatim>\<open>Decimal(x)\<close> inside \<^verbatim>\<open>localcontext(ExtendedContext)\<close>: no trap is set, so a malformed
  string gives NaN.
\<close>

definition Decimal_ext :: "ustring option \<Rightarrow> error + decimal" where
  "Decimal_ext x =
     (case x of
        None \<Rightarrow> Inl TypeError
      | Some v \<Rightarrow>
          (case parse_decimal v of
             Number d \<Rightarrow> Inr d
           | Malformed \<Rightarrow> Inr NaN
           | Unmodelled \<Rightarrow> Inl UnmodelledDecimal))"

text \<open>The precision passed to \<^verbatim>\<open>quantize\<close>, as the number of decimal places.\<close>

definition precision_places :: "fields \<Rightarrow> nat" where
  "precision_places f =
     (if latsec f \<noteq> u ''00'' \<or> longsec f \<noteq> u ''00'' then 6
      else if latmin f \<noteq> u ''00'' \<or> longmin f \<noteq> u ''00'' then 3
      else 0)"

text \<open>\<^verbatim>\<open>deg + (min + (sec / divisor)) / 60\<close> in a context of precision 9.\<close>

definition dms_sum :: "decimal \<Rightarrow> decimal \<Rightarrow> decimal \<Rightarrow> nat \<Rightarrow> decimal" where
  "dms_sum deg mins secs divisor =
     dec_add 9 deg
       (dec_div 9 (dec_add 9 mins (dec_div 9 secs (Fin False divisor 0))) (Fin False 60 0))"

text \<open>The two values before \<^verbatim>\<open>str\<close>: quantized decimals.\<close>

definition convert_decimals :: "fields \<Rightarrow> error + decimal \<times> decimal" where
  "convert_decimals f =
     (case Decimal_ext (latdeg f) of Inl e \<Rightarrow> Inl e | Inr latitude \<Rightarrow>
      case Decimal_ext (Some (latmin f)) of Inl e \<Rightarrow> Inl e | Inr latmin' \<Rightarrow>
      case Decimal_ext (Some (latsec f)) of Inl e \<Rightarrow> Inl e | Inr latsec' \<Rightarrow>
      case Decimal_ext (longdeg f) of Inl e \<Rightarrow> Inl e | Inr longitude \<Rightarrow>
      case Decimal_ext (Some (longmin f)) of Inl e \<Rightarrow> Inl e | Inr longmin' \<Rightarrow>
      case Decimal_ext (Some (longsec f)) of Inl e \<Rightarrow> Inl e | Inr longsec' \<Rightarrow>
        (let divisor = (if dec_gt latsec' 59 \<or> dec_gt longsec' 59 then 100 else 60);
             latitude1 = dms_sum latitude latmin' latsec' divisor;
             longitude1 = dms_sum longitude longmin' longsec' divisor;
             latitude2 = (if latdir f = Some [83]
                          then dec_mul 9 latitude1 (Fin True 1 0) else latitude1);
             longitude2 = (if longdir f = Some [87]
                           then dec_mul 9 longitude1 (Fin True 1 0) else longitude1);
             q = - int (precision_places f)
         in Inr (quantize 9 latitude2 q, quantize 9 longitude2 q)))"

definition convert_to_lat_lng :: "fields \<Rightarrow> error + ustring \<times> ustring" where
  "convert_to_lat_lng f =
     (case convert_decimals f of
        Inl e \<Rightarrow> Inl e
      | Inr (lat, lng) \<Rightarrow> Inr (dec_str lat, dec_str lng))"

subsection \<open>_convert_signs\<close>

text \<open>\<^verbatim>\<open>Decimal(x)\<close> in the default context, which traps \<^verbatim>\<open>InvalidOperation\<close>.\<close>

definition Decimal_default :: "ustring option \<Rightarrow> error + decimal" where
  "Decimal_default x =
     (case x of
        None \<Rightarrow> Inl TypeError
      | Some v \<Rightarrow>
          (case parse_decimal v of
             Number d \<Rightarrow> Inr d
           | Malformed \<Rightarrow> Inl InvalidOperation
           | Unmodelled \<Rightarrow> Inl UnmodelledDecimal))"

definition convert_signs :: "groups \<Rightarrow> error + ustring \<times> ustring" where
  "convert_signs parts =
     (let latdir' = upper0 (the (py_or (py_or (parts G_latdir) (parts G_latdir2)) (Some [78])));
          longdir' = upper0 (the (py_or (py_or (parts G_longdir) (parts G_longdir2)) (Some [83])))
      in case Decimal_default (parts G_latitude) of Inl e \<Rightarrow> Inl e | Inr latitude \<Rightarrow>
         case Decimal_default (parts G_longitude) of Inl e \<Rightarrow> Inl e | Inr longitude \<Rightarrow>
           Inr (dec_str (if latdir' \<in> set [[83], [45]]
                         then dec_mul 28 latitude (Fin True 1 0) else latitude),
                dec_str (if longdir' \<in> set [[87], [45]]
                         then dec_mul 28 longitude (Fin True 1 0) else longitude)))"

subsection \<open>retrieve_lat_long\<close>

definition retrieve_lat_long :: "ustring \<Rightarrow> error + ustring \<times> ustring" where
  "retrieve_lat_long string =
     (case re_match decimal_degree_re string of
        Some m \<Rightarrow> convert_signs (m_groupdict m)
      | None \<Rightarrow>
          (case re_match degree_min_sec_re (normalize_string string) of
             None \<Rightarrow> Inl AttributeError
           | Some m \<Rightarrow> convert_to_lat_lng (cleanup (m_groupdict m))))"

subsection \<open>get_replacements\<close>

text \<open>
  \<^verbatim>\<open>pattern.finditer(string)\<close>: the matches from left to right, each search starting where
  the last match ended (one character further after an empty match or a failed attempt).
\<close>

function finditer_from :: "re \<Rightarrow> nat \<Rightarrow> ustring \<Rightarrow> rematch list" where
  "finditer_from r pos rest =
     (case match_at r pos rest of
        None \<Rightarrow> (case rest of [] \<Rightarrow> [] | x # xs \<Rightarrow> finditer_from r (pos + 1) xs)
      | Some m \<Rightarrow>
          (if pos < m_end m \<and> rest \<noteq> []
           then m # finditer_from r (m_end m) (drop (m_end m - pos) rest)
           else m # (case rest of [] \<Rightarrow> [] | x # xs \<Rightarrow> finditer_from r (pos + 1) xs)))"
  by pat_completeness auto
termination
proof (relation "measure (\<lambda>(r, pos, rest). length rest)")
  fix r :: re and pos :: nat and rest :: ustring and m :: rematch
  assume "pos < m_end m \<and> rest \<noteq> []"
  then have "0 < length rest" and "0 < m_end m - pos" by simp_all
  then have "length rest - (m_end m - pos) < length rest" by arith
  then show "((r, m_end m, drop (m_end m - pos) rest), (r, pos, rest))
               \<in> measure (\<lambda>(r, pos, rest). length rest)"
    by simp
qed auto

declare finditer_from.simps [simp del]

definition finditer :: "re \<Rightarrow> ustring \<Rightarrow> rematch list" where
  "finditer r s = finditer_from r 0 s"

definition re_search :: "re \<Rightarrow> ustring \<Rightarrow> rematch option" where \<comment> \<open>\<^verbatim>\<open>pattern.search(string)\<close>\<close>
  "re_search r s = (case finditer r s of [] \<Rightarrow> None | m # _ \<Rightarrow> Some m)"

text \<open>
  \<^verbatim>\<open>get_replacements\<close>. \<^verbatim>\<open>MapLink\<close> and the link functions are outside the sources: the
  substitution function is a parameter, applied to the matched text and the coordinates,
  and the dictionary is the list of its items in insertion order.
\<close>

fun collect :: "(ustring \<times> ustring \<times> ustring \<Rightarrow> 'a) \<Rightarrow> rematch list \<Rightarrow> error + (rematch \<times> 'a) list" where
  "collect sub_function [] = Inr []"
| "collect sub_function (m # ms) =
     (case convert_to_lat_lng (cleanup (m_groupdict m)) of
        Inl e \<Rightarrow> Inl e
      | Inr (latitude, longitude) \<Rightarrow>
          (case collect sub_function ms of
             Inl e \<Rightarrow> Inl e
           | Inr rs \<Rightarrow> Inr ((m, sub_function (m_group m, latitude, longitude)) # rs)))"

definition get_replacements ::
  "ustring \<Rightarrow> (ustring \<times> ustring \<times> ustring \<Rightarrow> 'a) \<Rightarrow> error + (rematch \<times> 'a) list" where
  "get_replacements string sub_function =
     collect sub_function (finditer degree_min_sec_re (normalize_string string))"

subsection \<open>Reading a match\<close>

text \<open>\<^verbatim>\<open>m.group(name)\<close> of the result of a match attempt; \<open>None\<close> when there is no match.\<close>

definition group_of :: "rematch option \<Rightarrow> gname \<Rightarrow> ustring option" where
  "group_of mo n = (case mo of None \<Rightarrow> None | Some m \<Rightarrow> m_groupdict m n)"

subsection \<open>The groups a pattern can set\<close>

fun gnames :: "re \<Rightarrow> gname set" where
  "gnames (Grp n r) = insert n (gnames r)"
| "gnames (Seq a b) = gnames a \<union> gnames b"
| "gnames (Alt a b) = gnames a \<union> gnames b"
| "gnames (Opt r) = gnames r"
| "gnames (Cond n a b) = gnames a \<union> gnames b"
| "gnames _ = {}"

text \<open>
  \<open>passes P r Q\<close>: started with groups that satisfy \<open>P\<close>, the pattern \<open>r\<close> can only end with
  groups that satisfy \<open>Q\<close>, whatever the text and the position.
\<close>

definition passes :: "(groups \<Rightarrow> bool) \<Rightarrow> re \<Rightarrow> (groups \<Rightarrow> bool) \<Rightarrow> bool" where
  "passes P r Q \<longleftrightarrow>
     (\<forall>p t g p' t' g'. P g \<longrightarrow> (p', t', g') \<in> set (rmatch r (p, t, g)) \<longrightarrow> Q g')"

text \<open>
  Two stages of a DMS match: before the longitude minutes are looked for, and after.
\<close>

definition minutes_before :: "groups \<Rightarrow> bool" where
  "minutes_before g \<longleftrightarrow> (g G_latminsec \<noteq> None \<longleftrightarrow> g G_latmin \<noteq> None) \<and> g G_longmin = None"

definition minutes_after :: "groups \<Rightarrow> bool" where
  "minutes_after g \<longleftrightarrow> (g G_latmin \<noteq> None \<longleftrightarrow> g G_longmin \<noteq> None)"

subsection \<open>Signs of decimals\<close>

fun nonneg :: "decimal \<Rightarrow> bool" where
  "nonneg NaN \<longleftrightarrow> True"
| "nonneg (Fin s c e) \<longleftrightarrow> \<not> s"

subsection \<open>Values and renderings of decimals\<close>

text \<open>The number a finite decimal stands for.\<close>

fun value_of :: "decimal \<Rightarrow> rat" where
  "value_of NaN = 0"
| "value_of (Fin s c e) =
     (if s then - 1 else 1) * of_nat c * (if 0 \<le> e then 10 ^ nat e else 1 / 10 ^ nat (- e))"

text \<open>
  The DMS-to-decimal conversion as the spec words it: exact arithmetic on the three fields,
  \<open>deg + (min + sec / divisor) / 60\<close>, and one rounding half to even at the chosen number
  of decimal places. The result is the rounded value in units of the last place.
\<close>

definition spec_round_half_even :: "rat \<Rightarrow> int" where
  "spec_round_half_even x =
     (let f = \<lfloor>x\<rfloor>; r = x - of_int f
      in if 1 / 2 < r \<or> (r = 1 / 2 \<and> odd f) then f + 1 else f)"

definition spec_coordinate :: "decimal \<Rightarrow> decimal \<Rightarrow> decimal \<Rightarrow> nat \<Rightarrow> nat \<Rightarrow> int" where
  "spec_coordinate deg mins secs divisor places =
     spec_round_half_even
       ((value_of deg + (value_of mins + value_of secs / of_nat divisor) / 60) * 10 ^ places)"

text \<open>
  A string in fixed notation with exactly \<open>p\<close> decimal places: an optional minus sign, at
  least one digit, and for \<open>p > 0\<close> a point and \<open>p\<close> digits.
\<close>

definition fixed_places :: "nat \<Rightarrow> ustring \<Rightarrow> bool" where
  "fixed_places p str \<longleftrightarrow>
     (let body = (if take 1 str = [45] then drop 1 str else str);
          ip = takeWhile is_digit body;
          r = dropWhile is_digit body
      in ip \<noteq> [] \<and>
         (if p = 0 then r = []
          else take 1 r = [46] \<and> length (drop 1 r) = p \<and> list_all is_digit (drop 1 r)))"

text \<open>
  \<open>quantized_to p v x\<close>: \<open>x\<close> is what quantizing \<open>v\<close> to \<open>p\<close> decimal places gives in a
  context of 9 digits. A NaN stays a NaN. For a finite \<open>v\<close>, let \<open>n\<close> be the magnitude of
  \<open>v\<close> in units of \<open>10\<^sup>-\<^sup>p\<close>, rounded half to even. If \<open>n\<close> needs more than 9 digits,
  \<open>x\<close> is NaN. Otherwise \<open>x\<close> has the sign of \<open>v\<close>, the coefficient \<open>n\<close> and the exponent
  \<open>-p\<close>: a nearest multiple of \<open>10\<^sup>-\<^sup>p\<close>, the even one of two nearest, which renders in
  fixed notation with \<open>p\<close> decimal places.
\<close>

definition quantized_to :: "nat \<Rightarrow> decimal \<Rightarrow> decimal \<Rightarrow> bool" where
  "quantized_to p v x \<longleftrightarrow>
     (case v of
        NaN \<Rightarrow> x = NaN
      | Fin s c e \<Rightarrow>
          (let n = spec_round_half_even (\<bar>value_of v\<bar> * 10 ^ p)
           in if 10 ^ 9 \<le> n then x = NaN
              else x = Fin s (nat n) (- int p) \<and>
                   2 * \<bar>value_of x - value_of v\<bar> * 10 ^ p \<le> 1 \<and>
                   (2 * \<bar>value_of x - value_of v\<bar> * 10 ^ p = 1 \<longrightarrow> even n) \<and>
                   fixed_places p (dec_str x)))"

text \<open>
  The coefficient that \<^verbatim>\<open>_rescale\<close> computes for the exponent \<open>-p\<close>: zeros appended, or
  digits dropped with \<open>round_half_even\<close>.
\<close>

definition rescaled :: "nat \<Rightarrow> int \<Rightarrow> nat \<Rightarrow> nat" where
  "rescaled c e p =
     (if - int p \<le> e then c * 10 ^ nat (e + int p) else round_half_even c (nat (- int p - e)))"

text \<open>At most \<open>p\<close> significant digits.\<close>

fun sig_digits :: "nat \<Rightarrow> decimal \<Rightarrow> bool" where
  "sig_digits p NaN \<longleftrightarrow> True"
| "sig_digits p (Fin s c e) \<longleftrightarrow> c < 10 ^ p"

section \<open>Evaluation\<close>

text \<open>The equations that unfold the patterns and the helpers on a concrete input.\<close>

lemmas re_defs = seqs_def sp_def osp_def digit_range_def ns_word_def ew_word_def ns_sign_def
  ew_sign_def long_degrees_def degrees_word_def decimal_degree_re_def deg_mark_def
  minutes_re_def minute_mark_def seconds_re_def second_mark_def degree_min_sec_re_def u_def
  in_set_def is_digit_def is_space_def fold_case_def

lemmas match_defs = re_match_def match_at_def

lemmas clean_defs = cleanup_def truthy_def py_or_def or_00_def upper0_def upper_char_def

lemmas norm_defs = normalize_string_def normalize_with_def sub_class_def strip_def
  MINUTE_CHARACTERS_def SECOND_CHARACTERS_def is_space_def u_def

text \<open>
  The recursive functions on numbers unfold on numerals only, so that the simplifier cannot
  unfold them forever on a variable.
\<close>

lemma ndigits_eval:
  "ndigits 0 = 1" "ndigits (Suc 0) = 1"
  "ndigits (numeral k) = (if numeral k < (10::nat) then 1 else Suc (ndigits (numeral k div 10)))"
  by (simp_all add: ndigits.simps [of 0] ndigits.simps [of "Suc 0"] ndigits.simps [of "numeral k"])

lemma digits_of_eval:
  "digits_of 0 = [48]" "digits_of (Suc 0) = [49]"
  "digits_of (numeral k) =
     (if numeral k < (10::nat) then [48 + numeral k]
      else digits_of (numeral k div 10) @ [48 + numeral k mod 10])"
  by (simp_all add: digits_of.simps [of 0] digits_of.simps [of "Suc 0"]
      digits_of.simps [of "numeral k"])

lemma strip_zeros_eval:
  "strip_zeros 0 e ideal = (if e < ideal then strip_zeros 0 (e + 1) ideal else (0, e))"
  "strip_zeros (Suc 0) e ideal = (Suc 0, e)"
  "strip_zeros (numeral k) e ideal =
     (if e < ideal \<and> numeral k mod (10::nat) = 0
      then strip_zeros (numeral k div 10) (e + 1) ideal
      else (numeral k, e))"
  by (simp_all add: strip_zeros.simps [of 0] strip_zeros.simps [of "Suc 0"]
      strip_zeros.simps [of "numeral k"])

lemmas dec_defs = convert_to_lat_lng_def convert_decimals_def Decimal_ext_def
  Decimal_default_def parse_decimal_def strip_def is_special_def is_exponent_def digits_val_def
  precision_places_def dms_sum_def normalize_ops_def round_half_even_def signed_str_def
  convert_signs_def ndigits_eval digits_of_eval strip_zeros_eval Let_def is_digit_def
  is_space_def fold_case_def u_def truthy_def py_or_def upper0_def upper_char_def

section \<open>Scanning with an anchored pattern\<close>

text \<open>
  \<^verbatim>\<open>degree_min_sec_re\<close> starts with \<^verbatim>\<open>^\<close> and is compiled without \<^verbatim>\<open>re.MULTILINE\<close>: an
  attempt that starts after position 0 fails at once, so a scan finds the match at position 0
  or nothing.
\<close>

lemma dms_anchored: "0 < pos \<Longrightarrow> rmatch degree_min_sec_re (pos, rest, g) = []"
  by (simp add: degree_min_sec_re_def seqs_def)

lemma dms_match_at_later: "0 < pos \<Longrightarrow> match_at degree_min_sec_re pos rest = None"
  by (simp add: match_at_def dms_anchored)

lemma dms_finditer_later: "0 < pos \<Longrightarrow> finditer_from degree_min_sec_re pos rest = []"
proof (induction rest arbitrary: pos)
  case Nil
  then show ?case by (subst finditer_from.simps) (simp add: dms_match_at_later)
next
  case (Cons x xs)
  then show ?case by (subst finditer_from.simps) (simp add: dms_match_at_later)
qed

lemma dms_finditer:
  "finditer degree_min_sec_re s =
     (case re_match degree_min_sec_re s of None \<Rightarrow> [] | Some m \<Rightarrow> [m])"
  unfolding finditer_def re_match_def
  by (subst finditer_from.simps) (auto simp: dms_finditer_later split: option.splits list.splits)

lemma dms_search: "re_search degree_min_sec_re s = re_match degree_min_sec_re s"
  by (simp add: re_search_def dms_finditer split: option.splits)

lemma norm_doctest:
  "normalize_string (u ''4630 NORTH 5705 WEST 58147N/07720W'') =
     u ''4630 NORTH 5705 WEST 58147N/07720W''"
  by (simp add: norm_defs)

lemma dms_doctest:
  "rmatch degree_min_sec_re (0, u ''4630 NORTH 5705 WEST 58147N/07720W'', \<lambda>_. None) = []"
  by (simp add: re_defs)

section \<open>The two paths of retrieve_lat_long\<close>

lemma retrieve_decimal_path:
  "re_match decimal_degree_re s = Some m \<Longrightarrow> retrieve_lat_long s = convert_signs (m_groupdict m)"
  by (simp add: retrieve_lat_long_def)

lemma retrieve_dms_path:
  "re_match decimal_degree_re s = None \<Longrightarrow>
   retrieve_lat_long s =
     (case re_match degree_min_sec_re (normalize_string s) of
        None \<Rightarrow> Inl AttributeError
      | Some m \<Rightarrow> convert_to_lat_lng (cleanup (m_groupdict m)))"
  by (simp add: retrieve_lat_long_def)

lemma retrieve_decimal_eval:
  "map_option (convert_signs \<circ> m_groupdict) (re_match decimal_degree_re s) = Some r \<Longrightarrow>
   retrieve_lat_long s = r"
  by (auto simp: retrieve_lat_long_def split: option.splits)

lemma retrieve_dms_eval:
  "re_match decimal_degree_re s = None \<Longrightarrow> normalize_string s = t \<Longrightarrow>
   map_option (cleanup \<circ> m_groupdict) (re_match degree_min_sec_re t) = Some f \<Longrightarrow>
   retrieve_lat_long s = convert_to_lat_lng f"
  by (auto simp: retrieve_lat_long_def split: option.splits)

lemma retrieve_no_match:
  "re_match decimal_degree_re s = None \<Longrightarrow> normalize_string s = t \<Longrightarrow>
   re_match degree_min_sec_re t = None \<Longrightarrow> retrieve_lat_long s = Inl AttributeError"
  by (simp add: retrieve_lat_long_def)

section \<open>Seconds above 59\<close>

lemma decimal_misses_50_27:
  "re_match decimal_degree_re (u ''50 27 55 N 127 27 65 W'') = None"
  by (simp add: match_defs re_defs)

lemma norm_50_27:
  "normalize_string (u ''50 27 55 N 127 27 65 W'') = u ''50 27 55 N 127 27 65 W''"
  by (simp add: norm_defs)

lemma dms_fields_50_27:
  "map_option (cleanup \<circ> m_groupdict)
     (re_match degree_min_sec_re (u ''50 27 55 N 127 27 65 W'')) =
   Some \<lparr>latdir = Some (u ''N''), latdeg = Some (u ''50''), latmin = u ''27'',
         latsec = u ''55'', longdir = Some (u ''W''), longdeg = Some (u ''127''),
         longmin = u ''27'', longsec = u ''65''\<rparr>"
  by (simp add: match_defs re_defs clean_defs)

lemma convert_50_27:
  "convert_to_lat_lng
     \<lparr>latdir = Some (u ''N''), latdeg = Some (u ''50''), latmin = u ''27'',
      latsec = u ''55'', longdir = Some (u ''W''), longdeg = Some (u ''127''),
      longmin = u ''27'', longsec = u ''65''\<rparr> =
   Inr (u ''50.459167'', u ''-127.460833'')"
  by (simp add: dec_defs)

lemma convert_decimals_shared:
  assumes "Decimal_ext (latdeg f) = Inr d1" "Decimal_ext (Some (latmin f)) = Inr m1"
    "Decimal_ext (Some (latsec f)) = Inr s1" "Decimal_ext (longdeg f) = Inr d2"
    "Decimal_ext (Some (longmin f)) = Inr m2" "Decimal_ext (Some (longsec f)) = Inr s2"
  shows "convert_decimals f =
     (let divisor = (if dec_gt s1 59 \<or> dec_gt s2 59 then 100 else 60) in
      Inr (quantize 9
             (if latdir f = Some [83] then dec_mul 9 (dms_sum d1 m1 s1 divisor) (Fin True 1 0)
              else dms_sum d1 m1 s1 divisor)
             (- int (precision_places f)),
           quantize 9
             (if longdir f = Some [87] then dec_mul 9 (dms_sum d2 m2 s2 divisor) (Fin True 1 0)
              else dms_sum d2 m2 s2 divisor)
             (- int (precision_places f))))"
  using assms by (simp add: convert_decimals_def Let_def)

text \<open>
  C2. Whenever the six numeric fields are read as decimals and the latitude seconds or the
  longitude seconds exceed 59, both coordinates are computed as
  \<open>deg + (min + sec / 100) / 60\<close>: one decision for the pair. And
  \<^verbatim>\<open>retrieve_lat_long("50 27 55 N 127 27 65 W")\<close> is \<^verbatim>\<open>("50.459167", "-127.460833")\<close>, where
  only the longitude seconds exceed 59.
\<close>

theorem seconds_over_59_shared:
  "(\<forall>f d1 m1 s1 d2 m2 s2.
      Decimal_ext (latdeg f) = Inr d1 \<and> Decimal_ext (Some (latmin f)) = Inr m1 \<and>
      Decimal_ext (Some (latsec f)) = Inr s1 \<and> Decimal_ext (longdeg f) = Inr d2 \<and>
      Decimal_ext (Some (longmin f)) = Inr m2 \<and> Decimal_ext (Some (longsec f)) = Inr s2 \<and>
      (dec_gt s1 59 \<or> dec_gt s2 59) \<longrightarrow>
      convert_decimals f =
        Inr (quantize 9
               (if latdir f = Some [83] then dec_mul 9 (dms_sum d1 m1 s1 100) (Fin True 1 0)
                else dms_sum d1 m1 s1 100)
               (- int (precision_places f)),
             quantize 9
               (if longdir f = Some [87] then dec_mul 9 (dms_sum d2 m2 s2 100) (Fin True 1 0)
                else dms_sum d2 m2 s2 100)
               (- int (precision_places f)))) \<and>
   retrieve_lat_long (u ''50 27 55 N 127 27 65 W'') = Inr (u ''50.459167'', u ''-127.460833'')"
proof (intro conjI allI impI)
  fix f :: fields and d1 m1 s1 d2 m2 s2 :: decimal
  assume h: "Decimal_ext (latdeg f) = Inr d1 \<and> Decimal_ext (Some (latmin f)) = Inr m1 \<and>
      Decimal_ext (Some (latsec f)) = Inr s1 \<and> Decimal_ext (longdeg f) = Inr d2 \<and>
      Decimal_ext (Some (longmin f)) = Inr m2 \<and> Decimal_ext (Some (longsec f)) = Inr s2 \<and>
      (dec_gt s1 59 \<or> dec_gt s2 59)"
  then have "(if dec_gt s1 59 \<or> dec_gt s2 59 then 100 else 60) = (100::nat)" by simp
  with h show "convert_decimals f =
        Inr (quantize 9
               (if latdir f = Some [83] then dec_mul 9 (dms_sum d1 m1 s1 100) (Fin True 1 0)
                else dms_sum d1 m1 s1 100)
               (- int (precision_places f)),
             quantize 9
               (if longdir f = Some [87] then dec_mul 9 (dms_sum d2 m2 s2 100) (Fin True 1 0)
                else dms_sum d2 m2 s2 100)
               (- int (precision_places f)))"
    using convert_decimals_shared [of f d1 m1 s1 d2 m2 s2] by (simp add: Let_def)
next
  show "retrieve_lat_long (u ''50 27 55 N 127 27 65 W'') = Inr (u ''50.459167'', u ''-127.460833'')"
    using retrieve_dms_eval [OF decimal_misses_50_27 norm_50_27 dms_fields_50_27]
    by (simp add: convert_50_27)
qed

text \<open>
  The fields of \<^verbatim>\<open>"50 27 55 N 127 27 65 W"\<close>: the latitude seconds, 55, are below 60 and
  are divided by 100 all the same, which gives 50.459167 and not 50.465278.
\<close>

theorem seconds_over_59_shared_witness:
  "Decimal_ext (Some (u ''50'')) = Inr (Fin False 50 0) \<and>
   Decimal_ext (Some (u ''27'')) = Inr (Fin False 27 0) \<and>
   Decimal_ext (Some (u ''55'')) = Inr (Fin False 55 0) \<and>
   Decimal_ext (Some (u ''127'')) = Inr (Fin False 127 0) \<and>
   Decimal_ext (Some (u ''65'')) = Inr (Fin False 65 0) \<and>
   \<not> dec_gt (Fin False 55 0) 59 \<and> dec_gt (Fin False 65 0) 59 \<and>
   convert_decimals
     \<lparr>latdir = Some (u ''N''), latdeg = Some (u ''50''), latmin = u ''27'',
      latsec = u ''55'', longdir = Some (u ''W''), longdeg = Some (u ''127''),
      longmin = u ''27'', longsec = u ''65''\<rparr> =
   Inr (Fin False 50459167 (- 6), Fin True 127460833 (- 6))"
proof -
  let ?f = "\<lparr>latdir = Some (u ''N''), latdeg = Some (u ''50''), latmin = u ''27'',
      latsec = u ''55'', longdir = Some (u ''W''), longdeg = Some (u ''127''),
      longmin = u ''27'', longsec = u ''65''\<rparr>"
  have p: "Decimal_ext (Some (u ''50'')) = Inr (Fin False 50 0)"
    "Decimal_ext (Some (u ''27'')) = Inr (Fin False 27 0)"
    "Decimal_ext (Some (u ''55'')) = Inr (Fin False 55 0)"
    "Decimal_ext (Some (u ''127'')) = Inr (Fin False 127 0)"
    "Decimal_ext (Some (u ''65'')) = Inr (Fin False 65 0)"
    by (simp_all add: dec_defs)
  have g: "\<not> dec_gt (Fin False 55 0) 59" "dec_gt (Fin False 65 0) 59" by simp_all
  have q: "quantize 9 (dms_sum (Fin False 50 0) (Fin False 27 0) (Fin False 55 0) 100) (- 6) =
      Fin False 50459167 (- 6)"
    "quantize 9 (dec_mul 9 (dms_sum (Fin False 127 0) (Fin False 27 0) (Fin False 65 0) 100)
       (Fin True 1 0)) (- 6) = Fin True 127460833 (- 6)"
    by (simp_all add: dec_defs)
  have "convert_decimals ?f = Inr (Fin False 50459167 (- 6), Fin True 127460833 (- 6))"
    using seconds_over_59_shared [THEN conjunct1, rule_format,
        of ?f "Fin False 50 0" "Fin False 27 0" "Fin False 55 0"
           "Fin False 127 0" "Fin False 27 0" "Fin False 65 0"] p g q
    by (simp add: precision_places_def u_def)
  with p g show ?thesis by simp
qed

section \<open>No match\<close>

lemma decimal_misses_GGN: "re_match decimal_degree_re (u ''GGN7383 was'') = None"
  by (simp add: match_defs re_defs)

lemma decimal_misses_6830: "re_match decimal_degree_re (u ''6830N 70W'') = None"
  by (simp add: match_defs re_defs)

lemma dms_misses_GGN: "re_match degree_min_sec_re (u ''GGN7383 was'') = None"
  by (simp add: match_defs re_defs)

lemma dms_misses_6830: "re_match degree_min_sec_re (u ''6830N 70W'') = None"
  by (simp add: match_defs re_defs)

lemma norm_GGN: "normalize_string (u ''GGN7383 was'') = u ''GGN7383 was''"
  by (simp add: norm_defs)

lemma norm_6830: "normalize_string (u ''6830N 70W'') = u ''6830N 70W''"
  by (simp add: norm_defs)

text \<open>
  C4. When the decimal-degree pattern does not match the input and the DMS pattern does not
  match the normalized input, \<^verbatim>\<open>retrieve_lat_long\<close> fails (with the \<^verbatim>\<open>AttributeError\<close> of
  \<^verbatim>\<open>None.groupdict()\<close>) and returns no pair. The DMS pattern finds nothing in
  \<^verbatim>\<open>"GGN7383 was"\<close> and \<^verbatim>\<open>"6830N 70W"\<close>, neither by \<^verbatim>\<open>match\<close> nor by \<^verbatim>\<open>search\<close>, and
  \<^verbatim>\<open>retrieve_lat_long\<close> fails on both.
\<close>

theorem no_match_is_an_error:
  "(\<forall>s. re_match decimal_degree_re s = None \<and>
        re_match degree_min_sec_re (normalize_string s) = None \<longrightarrow>
        retrieve_lat_long s = Inl AttributeError) \<and>
   re_match degree_min_sec_re (u ''GGN7383 was'') = None \<and>
   re_search degree_min_sec_re (u ''GGN7383 was'') = None \<and>
   re_match degree_min_sec_re (u ''6830N 70W'') = None \<and>
   re_search degree_min_sec_re (u ''6830N 70W'') = None \<and>
   retrieve_lat_long (u ''GGN7383 was'') = Inl AttributeError \<and>
   retrieve_lat_long (u ''6830N 70W'') = Inl AttributeError"
proof (intro conjI allI impI)
  fix s
  assume "re_match decimal_degree_re s = None \<and>
    re_match degree_min_sec_re (normalize_string s) = None"
  then show "retrieve_lat_long s = Inl AttributeError"
    by (simp add: retrieve_lat_long_def)
next
  show "retrieve_lat_long (u ''GGN7383 was'') = Inl AttributeError"
    by (rule retrieve_no_match [OF decimal_misses_GGN norm_GGN dms_misses_GGN])
next
  show "retrieve_lat_long (u ''6830N 70W'') = Inl AttributeError"
    by (rule retrieve_no_match [OF decimal_misses_6830 norm_6830 dms_misses_6830])
qed (simp_all add: dms_search dms_misses_GGN dms_misses_6830)

theorem no_match_is_an_error_witness:
  "re_match decimal_degree_re (u ''6830N 70W'') = None \<and>
   re_match degree_min_sec_re (normalize_string (u ''6830N 70W'')) = None \<and>
   retrieve_lat_long (u ''6830N 70W'') = Inl AttributeError"
  using no_match_is_an_error [THEN conjunct1, rule_format, of "u ''6830N 70W''"]
    decimal_misses_6830 dms_misses_6830 norm_6830
  by simp

section \<open>The decimal-degree path\<close>

lemma decimal_misses_trailing: "re_match decimal_degree_re (u ''43.5 N, 80 W '') = None"
  by (simp add: match_defs re_defs)

lemma norm_trailing: "normalize_string (u ''43.5 N, 80 W '') = u ''43.5 N, 80 W''"
  by (simp add: norm_defs)

lemma decimal_takes_43_5:
  "map_option (convert_signs \<circ> m_groupdict) (re_match decimal_degree_re (u ''43.5 N, 80 W'')) =
   Some (Inr (u ''43.5'', u ''-80''))"
  by (simp add: match_defs re_defs dec_defs)

lemma dms_misses_43_5: "re_match degree_min_sec_re (u ''43.5 N, 80 W'') = None"
  by (simp add: match_defs re_defs)

text \<open>
  C8, as stated, fails: \<^verbatim>\<open>"43.5 N, 80 W "\<close> (with a trailing space) normalizes to
  \<^verbatim>\<open>"43.5 N, 80 W"\<close>, which the decimal-degree pattern matches, giving (43.5, -80); but
  \<^verbatim>\<open>retrieve_lat_long\<close> tries that pattern on the input as it is, where it fails, and the DMS
  pattern does not match the normalized text either.
\<close>

theorem normalizer_not_before_decimal:
  "map_option (convert_signs \<circ> m_groupdict)
     (re_match decimal_degree_re (normalize_string (u ''43.5 N, 80 W ''))) =
     Some (Inr (u ''43.5'', u ''-80'')) \<and>
   retrieve_lat_long (u ''43.5 N, 80 W '') = Inl AttributeError"
  using retrieve_no_match [OF decimal_misses_trailing norm_trailing dms_misses_43_5]
  by (simp add: norm_trailing decimal_takes_43_5)

section \<open>Signs on the decimal-degree path\<close>

lemma decimal_takes_minus_N:
  "map_option (convert_signs \<circ> m_groupdict)
     (re_match decimal_degree_re (u ''-59.59 N 43.50 E'')) =
   Some (Inr (u ''-59.59'', u ''43.50''))"
  by (simp add: match_defs re_defs dec_defs)

lemma decimal_groups_minus_N:
  "group_of (re_match decimal_degree_re (u ''-59.59 N 43.50 E'')) G_latdir = Some (u ''-'')"
  "group_of (re_match decimal_degree_re (u ''-59.59 N 43.50 E'')) G_latdir2 = Some (u ''N'')"
  by (simp_all add: group_of_def match_defs re_defs)

text \<open>
  C7, as stated, fails: in \<^verbatim>\<open>"-59.59 N 43.50 E"\<close> the minus sign is the first-position
  token and \<^verbatim>\<open>N\<close> the second-position one, and the latitude comes out negative.
\<close>

theorem minus_beats_letter:
  "group_of (re_match decimal_degree_re (u ''-59.59 N 43.50 E'')) G_latdir = Some (u ''-'') \<and>
   group_of (re_match decimal_degree_re (u ''-59.59 N 43.50 E'')) G_latdir2 = Some (u ''N'') \<and>
   retrieve_lat_long (u ''-59.59 N 43.50 E'') = Inr (u ''-59.59'', u ''43.50'')"
  using retrieve_decimal_eval [OF decimal_takes_minus_N] decimal_groups_minus_N by simp

lemma convert_signs_first_lat:
  "truthy (parts G_latdir) \<Longrightarrow> convert_signs (parts(G_latdir2 := x)) = convert_signs parts"
  by (simp add: convert_signs_def py_or_def cong: sum.case_cong)

lemma convert_signs_first_long:
  "truthy (parts G_longdir) \<Longrightarrow> convert_signs (parts(G_longdir2 := x)) = convert_signs parts"
  by (simp add: convert_signs_def py_or_def cong: sum.case_cong)

lemma convert_signs_minus:
  "parts G_latdir = Some [45] \<Longrightarrow> Decimal_default (parts G_latitude) = Inr lat \<Longrightarrow>
   Decimal_default (parts G_longitude) = Inr lng \<Longrightarrow>
   map_sum id fst (convert_signs parts) = Inr (dec_str (dec_mul 28 lat (Fin True 1 0)))"
  by (simp add: convert_signs_def py_or_def truthy_def upper0_def upper_char_def Let_def)

lemma convert_signs_second:
  "parts G_latdir = None \<Longrightarrow> parts G_latdir2 = Some d \<Longrightarrow> d \<noteq> [] \<Longrightarrow>
   Decimal_default (parts G_latitude) = Inr lat \<Longrightarrow>
   Decimal_default (parts G_longitude) = Inr lng \<Longrightarrow>
   map_sum id fst (convert_signs parts) =
     Inr (dec_str (if upper0 d = [83] \<or> upper0 d = [45]
                   then dec_mul 28 lat (Fin True 1 0) else lat))"
  by (simp add: convert_signs_def py_or_def truthy_def Let_def)

text \<open>
  C7, amended. On the decimal-degree path the token in first position (a word, a letter or
  the minus sign, all captured by the same group) takes precedence over the one in second
  position: once the first position is filled, the second-position token has no influence on
  the result, for latitude and longitude alike; a minus sign in first position negates the
  latitude whatever follows the number; the second-position token decides only when the first
  position is empty.
\<close>

theorem first_position_wins:
  "(\<forall>parts x. truthy (parts G_latdir) \<longrightarrow>
      convert_signs (parts(G_latdir2 := x)) = convert_signs parts) \<and>
   (\<forall>parts x. truthy (parts G_longdir) \<longrightarrow>
      convert_signs (parts(G_longdir2 := x)) = convert_signs parts) \<and>
   (\<forall>parts lat lng. parts G_latdir = Some [45] \<and>
      Decimal_default (parts G_latitude) = Inr lat \<and>
      Decimal_default (parts G_longitude) = Inr lng \<longrightarrow>
      map_sum id fst (convert_signs parts) = Inr (dec_str (dec_mul 28 lat (Fin True 1 0)))) \<and>
   (\<forall>parts d lat lng. parts G_latdir = None \<and> parts G_latdir2 = Some d \<and> d \<noteq> [] \<and>
      Decimal_default (parts G_latitude) = Inr lat \<and>
      Decimal_default (parts G_longitude) = Inr lng \<longrightarrow>
      map_sum id fst (convert_signs parts) =
        Inr (dec_str (if upper0 d = [83] \<or> upper0 d = [45]
                      then dec_mul 28 lat (Fin True 1 0) else lat)))"
  using convert_signs_first_lat convert_signs_first_long convert_signs_minus
    convert_signs_second
  by blast

text \<open>
  The groups of \<^verbatim>\<open>"-59.59 N 43.50 E"\<close> and of \<^verbatim>\<open>"59.59 S 43.50 E"\<close>: the letter \<^verbatim>\<open>N\<close> after
  the minus sign changes nothing, and an \<^verbatim>\<open>S\<close> in second position negates when the first
  position is empty.
\<close>

theorem first_position_wins_witness:
  "truthy (Some (u ''-'')) \<and> truthy (Some (u ''E'')) \<and>
   Decimal_default (Some (u ''59.59'')) = Inr (Fin False 5959 (- 2)) \<and>
   Decimal_default (Some (u ''43.50'')) = Inr (Fin False 4350 (- 2)) \<and>
   convert_signs
     ((\<lambda>_. None)(G_latdir := Some (u ''-''), G_latitude := Some (u ''59.59''),
        G_longdir := Some (u ''E''), G_longitude := Some (u ''43.50''),
        G_latdir2 := Some (u ''N''), G_longdir2 := Some (u ''W''))) =
     Inr (u ''-59.59'', u ''43.50'') \<and>
   map_sum id fst (convert_signs
     ((\<lambda>_. None)(G_latdir2 := Some (u ''S''), G_latitude := Some (u ''59.59''),
        G_longitude := Some (u ''43.50'')))) = Inr (u ''-59.59'')"
proof -
  let ?p = "(\<lambda>_. None)(G_latdir := Some (u ''-''), G_latitude := Some (u ''59.59''),
        G_longdir := Some (u ''E''), G_longitude := Some (u ''43.50''))"
  let ?q = "(\<lambda>_. None)(G_latdir2 := Some (u ''S''), G_latitude := Some (u ''59.59''),
        G_longitude := Some (u ''43.50''))"
  have t: "truthy (Some (u ''-''))" "truthy (Some (u ''E''))" by (simp_all add: truthy_def u_def)
  have d: "Decimal_default (Some (u ''59.59'')) = Inr (Fin False 5959 (- 2))"
    "Decimal_default (Some (u ''43.50'')) = Inr (Fin False 4350 (- 2))"
    by (simp_all add: dec_defs)
  have base: "convert_signs ?p = Inr (u ''-59.59'', u ''43.50'')"
    by (simp add: dec_defs)
  have 1: "convert_signs (?p(G_latdir2 := Some (u ''N''))) = convert_signs ?p"
    using first_position_wins [THEN conjunct1, rule_format, of ?p "Some (u ''N'')"] t by simp
  have 2: "convert_signs (?p(G_latdir2 := Some (u ''N''), G_longdir2 := Some (u ''W''))) =
      convert_signs (?p(G_latdir2 := Some (u ''N'')))"
    using first_position_wins [THEN conjunct2, THEN conjunct1, rule_format,
        of "?p(G_latdir2 := Some (u ''N''))" "Some (u ''W'')"] t by simp
  have 3: "map_sum id fst (convert_signs ?p) =
      Inr (dec_str (dec_mul 28 (Fin False 5959 (- 2)) (Fin True 1 0)))"
    using first_position_wins [THEN conjunct2, THEN conjunct2, THEN conjunct1, rule_format,
        of ?p "Fin False 5959 (- 2)" "Fin False 4350 (- 2)"] d by (simp add: u_def)
  have 4: "map_sum id fst (convert_signs ?q) = Inr (u ''-59.59'')"
    using first_position_wins [THEN conjunct2, THEN conjunct2, THEN conjunct2, rule_format,
        of ?q "u ''S''" "Fin False 5959 (- 2)" "Fin False 4350 (- 2)"] d
    by (simp add: dec_defs)
  from 1 2 base 3 4 t d show ?thesis by simp
qed

section \<open>A number captured with the character after it\<close>

lemma decimal_takes_52N:
  "map_option (convert_signs \<circ> m_groupdict) (re_match decimal_degree_re (u ''52N 43E'')) =
   Some (Inl InvalidOperation)"
  by (simp add: match_defs re_defs dec_defs)

lemma decimal_captures_52N:
  "map_option (\<lambda>m. map (m_groupdict m) [G_latitude, G_latpoint, G_longitude])
     (re_match decimal_degree_re (u ''52N 43E'')) =
   Some [Some (u ''52N''), None, Some (u ''43E'')]"
  by (simp add: match_defs re_defs)

lemma decimal_groups_52N:
  "group_of (re_match decimal_degree_re (u ''52N 43E'')) G_latitude = Some (u ''52N'')"
  "group_of (re_match decimal_degree_re (u ''52N 43E'')) G_latpoint = None"
  "group_of (re_match decimal_degree_re (u ''52N 43E'')) G_longitude = Some (u ''43E'')"
  "re_match decimal_degree_re (u ''52N 43E'') \<noteq> None"
  using decimal_captures_52N by (auto simp: group_of_def)

lemma parse_52N: "parse_decimal (u ''52N'') = Malformed"
  by (simp add: dec_defs)

section \<open>The text normalizer\<close>

lemma last_dropWhile: "dropWhile P xs \<noteq> [] \<Longrightarrow> last (dropWhile P xs) = last xs"
  by (induction xs) (auto split: if_splits)

lemma strip_ends:
  assumes "strip s \<noteq> []"
  shows "\<not> is_space (hd (strip s))" and "\<not> is_space (last (strip s))"
proof -
  let ?a = "dropWhile is_space s"
  let ?b = "dropWhile is_space (rev ?a)"
  from assms have b: "?b \<noteq> []" by (simp add: strip_def)
  have a: "?a \<noteq> []"
  proof
    assume "?a = []"
    then have "?b = []" by (simp only: rev.simps dropWhile.simps)
    with b show False by contradiction
  qed
  have "last (strip s) = hd ?b" using b by (simp add: strip_def last_rev)
  then show "\<not> is_space (last (strip s))" using hd_dropWhile [OF b] by simp
  have "hd (strip s) = last ?b" using b by (simp add: strip_def hd_rev)
  also have "\<dots> = last (rev ?a)" using b by (rule last_dropWhile)
  also have "\<dots> = hd ?a" using a by (simp add: last_rev)
  finally show "\<not> is_space (hd (strip s))" using hd_dropWhile [OF a] by simp
qed

lemma strip_fixed:
  assumes "t \<noteq> [] \<Longrightarrow> \<not> is_space (hd t) \<and> \<not> is_space (last t)"
  shows "strip t = t"
proof (cases t)
  case Nil
  then show ?thesis by (simp add: strip_def)
next
  case (Cons x xs)
  with assms have h: "\<not> is_space (hd t)" and l: "\<not> is_space (last t)" by simp_all
  from Cons h have 1: "dropWhile is_space t = t" by simp
  from Cons have "rev t \<noteq> []" by simp
  then obtain y ys where r: "rev t = y # ys" by (cases "rev t") auto
  from Cons have "hd (rev t) = last t" by (simp add: hd_rev)
  with r l have "\<not> is_space y" by simp
  with r have 2: "dropWhile is_space (rev t) = rev t" by simp
  show ?thesis by (simp add: strip_def 1 2)
qed

lemma strip_split:
  "\<exists>a b. s = a @ strip s @ b \<and> list_all is_space a \<and> list_all is_space b"
proof -
  let ?a = "dropWhile is_space s"
  have "rev ?a = takeWhile is_space (rev ?a) @ dropWhile is_space (rev ?a)" by simp
  then have "?a = strip s @ rev (takeWhile is_space (rev ?a))"
    unfolding strip_def by (metis rev_append rev_rev_ident)
  then have "s = takeWhile is_space s @ strip s @ rev (takeWhile is_space (rev ?a))"
    by (metis takeWhile_dropWhile_id)
  moreover have "list_all is_space (takeWhile is_space s)"
    by (simp add: list_all_iff) (meson set_takeWhileD)
  moreover have "list_all is_space (rev (takeWhile is_space (rev ?a)))"
    by (simp add: list_all_iff) (meson set_takeWhileD)
  ultimately show ?thesis by blast
qed

text \<open>What the two substitutions do to one character.\<close>

lemma normalize_with_map:
  "normalize_with mcls scls s =
     map (\<lambda>x. if scls (if mcls x then 39 else x) then 34 else if mcls x then 39 else x) (strip s)"
  by (simp add: normalize_with_def sub_class_def)

lemma not_space_quotes: "\<not> is_space 39" "\<not> is_space 34"
  by (simp_all add: is_space_def)

lemma normalize_with_stripped: "strip (normalize_with mcls scls s) = normalize_with mcls scls s"
proof (rule strip_fixed)
  assume "normalize_with mcls scls s \<noteq> []"
  then have ne: "strip s \<noteq> []" by (simp add: normalize_with_map)
  from strip_ends [OF ne] ne
  show "\<not> is_space (hd (normalize_with mcls scls s)) \<and> \<not> is_space (last (normalize_with mcls scls s))"
    by (simp add: normalize_with_map hd_map last_map not_space_quotes)
qed

lemma normalize_with_idem:
  assumes "\<not> mcls 34"
  shows "normalize_with mcls scls (normalize_with mcls scls s) = normalize_with mcls scls s"
proof -
  have "normalize_with mcls scls (normalize_with mcls scls s) =
      map (\<lambda>x. if scls (if mcls x then 39 else x) then 34 else if mcls x then 39 else x)
        (normalize_with mcls scls s)"
    by (subst normalize_with_map) (simp add: normalize_with_stripped)
  also have "\<dots> = normalize_with mcls scls s"
    using assms by (simp add: normalize_with_map)
  finally show ?thesis .
qed

text \<open>
  C9. For any two character classes in the place of \<^verbatim>\<open>MINUTE_CHARACTERS_RE\<close> and
  \<^verbatim>\<open>SECOND_CHARACTERS_RE\<close> such that the quotation mark is no minute character and the
  apostrophe no second character: normalizing twice is normalizing once; the result is the
  stripped text, which is the text without a run of white space at each end, with each
  character kept in its place, where a minute character has become the apostrophe, a second
  character the quotation mark, and any other character is unchanged.
\<close>

theorem normalize_idempotent:
  assumes "\<not> minute_cls 34" and "\<not> second_cls 39"
  shows "normalize_with minute_cls second_cls (normalize_with minute_cls second_cls s) =
           normalize_with minute_cls second_cls s \<and>
         (\<exists>a b. s = a @ strip s @ b \<and> list_all is_space a \<and> list_all is_space b) \<and>
         length (normalize_with minute_cls second_cls s) = length (strip s) \<and>
         (\<forall>i < length (strip s).
            (minute_cls (strip s ! i) \<longrightarrow> normalize_with minute_cls second_cls s ! i = 39) \<and>
            (\<not> minute_cls (strip s ! i) \<and> second_cls (strip s ! i) \<longrightarrow>
               normalize_with minute_cls second_cls s ! i = 34) \<and>
            (\<not> minute_cls (strip s ! i) \<and> \<not> second_cls (strip s ! i) \<longrightarrow>
               normalize_with minute_cls second_cls s ! i = strip s ! i))"
  using assms normalize_with_idem [of minute_cls second_cls s] strip_split [of s]
  by (simp add: normalize_with_map)

text \<open>
  The classes modelled from the spec, on a text with white space at both ends, a degree sign, a
  prime and a double prime.
\<close>

theorem normalize_idempotent_witness:
  "\<not> MINUTE_CHARACTERS 34 \<and> \<not> SECOND_CHARACTERS 39 \<and>
   normalize_string ([32] @ u ''45'' @ [176, 8242, 8243, 32]) = u ''45'' @ [176, 39, 34] \<and>
   normalize_string (normalize_string ([32] @ u ''45'' @ [176, 8242, 8243, 32])) =
     normalize_string ([32] @ u ''45'' @ [176, 8242, 8243, 32])"
proof -
  have m: "\<not> MINUTE_CHARACTERS 34" and s: "\<not> SECOND_CHARACTERS 39"
    by (simp_all add: MINUTE_CHARACTERS_def SECOND_CHARACTERS_def)
  have e: "normalize_string ([32] @ u ''45'' @ [176, 8242, 8243, 32]) = u ''45'' @ [176, 39, 34]"
    by (simp add: norm_defs)
  from m s normalize_idempotent [where minute_cls = MINUTE_CHARACTERS
      and second_cls = SECOND_CHARACTERS and s = "[32] @ u ''45'' @ [176, 8242, 8243, 32]"]
  have "normalize_string (normalize_string ([32] @ u ''45'' @ [176, 8242, 8243, 32])) =
     normalize_string ([32] @ u ''45'' @ [176, 8242, 8243, 32])"
    unfolding normalize_string_def by blast
  with m s e show ?thesis by simp
qed

section \<open>What every run of the matcher preserves\<close>

lemma match_str_length: "match_str cs t \<Longrightarrow> length cs \<le> length t"
  by (induction cs t rule: match_str.induct) auto

lemma rmatch_frame:
  "(p', t', g') \<in> set (rmatch r (p, t, g)) \<Longrightarrow> n \<notin> gnames r \<Longrightarrow> g' n = g n"
proof (induction r arbitrary: p t g p' t' g')
  case (Rep neg items lo hi)
  then show ?case by (auto simp: Let_def split: option.splits)
next
  case (Seq r1 r2)
  from Seq.prems(1) obtain pm tm gm where
    1: "(pm, tm, gm) \<in> set (rmatch r1 (p, t, g))" and
    2: "(p', t', g') \<in> set (rmatch r2 (pm, tm, gm))"
    by auto
  from Seq.prems(2) have "n \<notin> gnames r1" "n \<notin> gnames r2" by simp_all
  with Seq.IH(1) [OF 1] Seq.IH(2) [OF 2] show ?case by simp
next
  case (Grp m r)
  from Grp.prems(1) obtain g0 where
    1: "(p', t', g0) \<in> set (rmatch r (p, t, g))" and 2: "g' = g0(m := Some (take (p' - p) t))"
    by auto
  from Grp.prems(2) have "n \<noteq> m" "n \<notin> gnames r" by simp_all
  with Grp.IH [OF 1] 2 show ?case by simp
qed (auto split: list.splits if_splits)

lemma rmatch_mono:
  "(p', t', g') \<in> set (rmatch r (p, t, g)) \<Longrightarrow> g n \<noteq> None \<Longrightarrow> g' n \<noteq> None"
proof (induction r arbitrary: p t g p' t' g')
  case (Rep neg items lo hi)
  then show ?case by (auto simp: Let_def split: option.splits)
next
  case (Seq r1 r2)
  from Seq.prems(1) obtain pm tm gm where
    1: "(pm, tm, gm) \<in> set (rmatch r1 (p, t, g))" and
    2: "(p', t', g') \<in> set (rmatch r2 (pm, tm, gm))"
    by auto
  from Seq.IH(1) [OF 1 Seq.prems(2)] Seq.IH(2) [OF 2] show ?case by simp
next
  case (Grp m r)
  from Grp.prems(1) obtain g0 where
    1: "(p', t', g0) \<in> set (rmatch r (p, t, g))" and 2: "g' = g0(m := Some (take (p' - p) t))"
    by auto
  with Grp.IH [OF 1 Grp.prems(2)] show ?case by simp
qed (auto split: list.splits if_splits)

lemma rmatch_suffix:
  "(p', t', g') \<in> set (rmatch r (p, t, g)) \<Longrightarrow>
   p \<le> p' \<and> p' - p \<le> length t \<and> t' = drop (p' - p) t"
proof (induction r arbitrary: p t g p' t' g')
  case (Str cs)
  then show ?case using match_str_length [of cs t] by (auto split: if_splits)
next
  case (Rep neg items lo hi)
  have "length (takeWhile (in_set neg items) t) \<le> length t" by (rule length_takeWhile_le)
  with Rep show ?case by (auto simp: Let_def split: option.splits)
next
  case (Seq r1 r2)
  from Seq.prems(1) obtain pm tm gm where
    1: "(pm, tm, gm) \<in> set (rmatch r1 (p, t, g))" and
    2: "(p', t', g') \<in> set (rmatch r2 (pm, tm, gm))"
    by auto
  from Seq.IH(1) [OF 1] have a: "p \<le> pm" "pm - p \<le> length t" "tm = drop (pm - p) t" by simp_all
  from Seq.IH(2) [OF 2] have b: "pm \<le> p'" "p' - pm \<le> length tm" "t' = drop (p' - pm) tm"
    by simp_all
  from a b have "p' - pm + (pm - p) = p' - p" by simp
  with a b show ?case by (auto simp: add.commute)
next
  case (Grp m r)
  from Grp.prems(1) obtain g0 where "(p', t', g0) \<in> set (rmatch r (p, t, g))" by auto
  from Grp.IH [OF this] show ?case .
qed (auto split: list.splits if_splits)

lemma rmatch_seqs_Cons:
  "s'' \<in> set (rmatch (seqs (r # rs)) s) \<longleftrightarrow>
     (\<exists>s' \<in> set (rmatch r s). s'' \<in> set (rmatch (seqs rs) s'))"
  by (simp add: seqs_def)

lemma passes_seqs_Nil: "(\<And>g. P g \<Longrightarrow> Q g) \<Longrightarrow> passes P (seqs []) Q"
  by (simp add: passes_def seqs_def)

lemma passes_seqs_Cons: "passes P r Q \<Longrightarrow> passes Q (seqs rs) R \<Longrightarrow> passes P (seqs (r # rs)) R"
  unfolding passes_def rmatch_seqs_Cons by (metis prod_cases3)

lemma passes_frame:
  assumes "\<And>g g'. (\<forall>n \<in> N. g' n = g n) \<Longrightarrow> P g \<Longrightarrow> P g'" and "gnames r \<inter> N = {}"
  shows "passes P r P"
  unfolding passes_def
proof (intro allI impI)
  fix p t g p' t' g'
  assume P: "P g" and m: "(p', t', g') \<in> set (rmatch r (p, t, g))"
  have "\<forall>n \<in> N. g' n = g n" using rmatch_frame [OF m] assms(2) by auto
  then show "P g'" using P by (rule assms(1))
qed

lemma passes_Opt: "passes P r Q \<Longrightarrow> (\<And>g. P g \<Longrightarrow> Q g) \<Longrightarrow> passes P (Opt r) Q"
  by (auto simp: passes_def)

lemma passes_Cond:
  "passes (\<lambda>g. P g \<and> g n \<noteq> None) yes Q \<Longrightarrow> passes (\<lambda>g. P g \<and> g n = None) no Q \<Longrightarrow>
   passes P (Cond n yes no) Q"
  by (auto simp: passes_def)

lemma passes_Eps: "(\<And>g. P g \<Longrightarrow> Q g) \<Longrightarrow> passes P Eps Q"
  by (simp add: passes_def)

text \<open>A group that starts a sequence stays set to the end of the sequence.\<close>

lemma passes_Grp_first:
  "passes (\<lambda>g. True) (seqs (Grp n r # rs)) (\<lambda>g. g n \<noteq> None)"
  unfolding passes_def rmatch_seqs_Cons
proof (intro allI impI)
  fix p t g p' t' g'
  assume "\<exists>s' \<in> set (rmatch (Grp n r) (p, t, g)). (p', t', g') \<in> set (rmatch (seqs rs) s')"
  then obtain pm tm gm where 1: "(pm, tm, gm) \<in> set (rmatch (Grp n r) (p, t, g))"
    and 2: "(p', t', g') \<in> set (rmatch (seqs rs) (pm, tm, gm))"
    by (metis prod_cases3)
  from 1 have "gm n \<noteq> None" by auto
  with rmatch_mono [OF 2] show "g' n \<noteq> None" by simp
qed

section \<open>Minutes and seconds of the two coordinates\<close>

lemma dms_takes_58147:
  "map_option (cleanup \<circ> m_groupdict) (re_match degree_min_sec_re (u ''58147N/07720W'')) =
   Some \<lparr>latdir = Some (u ''N''), latdeg = Some (u ''58''), latmin = u ''14'',
         latsec = u ''7'', longdir = Some (u ''W''), longdeg = Some (u ''077''),
         longmin = u ''20'', longsec = u ''00''\<rparr>"
  by (simp add: match_defs re_defs clean_defs)

lemma dms_captures_58147:
  "map_option (\<lambda>m. map (m_groupdict m) [G_latsec, G_latdecsec, G_longsec, G_longdecsec, G_latmin])
     (re_match degree_min_sec_re (u ''58147N/07720W'')) =
   Some [Some (u ''7''), None, None, None, Some (u ''14'')]"
  by (simp add: match_defs re_defs)

lemma dms_groups_58147:
  "re_match degree_min_sec_re (u ''58147N/07720W'') \<noteq> None"
  "group_of (re_match degree_min_sec_re (u ''58147N/07720W'')) G_latsec = Some (u ''7'')"
  "group_of (re_match degree_min_sec_re (u ''58147N/07720W'')) G_latdecsec = None"
  "group_of (re_match degree_min_sec_re (u ''58147N/07720W'')) G_longsec = None"
  "group_of (re_match degree_min_sec_re (u ''58147N/07720W'')) G_longdecsec = None"
  "group_of (re_match degree_min_sec_re (u ''58147N/07720W'')) G_latmin = Some (u ''14'')"
  using dms_captures_58147 by (auto simp: group_of_def)

lemma decimal_misses_58147: "re_match decimal_degree_re (u ''58147N/07720W'') = None"
  by (simp add: match_defs re_defs)

lemma norm_58147: "normalize_string (u ''58147N/07720W'') = u ''58147N/07720W''"
  by (simp add: norm_defs)

lemma convert_58147:
  "convert_to_lat_lng
     \<lparr>latdir = Some (u ''N''), latdeg = Some (u ''58''), latmin = u ''14'',
      latsec = u ''7'', longdir = Some (u ''W''), longdeg = Some (u ''077''),
      longmin = u ''20'', longsec = u ''00''\<rparr> =
   Inr (u ''58.235278'', u ''-77.333333'')"
  by (simp add: dec_defs)

text \<open>
  C5, as stated, fails: in \<^verbatim>\<open>"58147N/07720W"\<close> (an input of tests.py) the latitude has a
  seconds value, 7, and the longitude has none, neither seconds nor a fraction of minutes;
  the DMS pattern matches and the input converts to (58.235278, -77.333333).
\<close>

theorem seconds_on_one_side:
  "re_match degree_min_sec_re (u ''58147N/07720W'') \<noteq> None \<and>
   group_of (re_match degree_min_sec_re (u ''58147N/07720W'')) G_latsec = Some (u ''7'') \<and>
   group_of (re_match degree_min_sec_re (u ''58147N/07720W'')) G_longsec = None \<and>
   group_of (re_match degree_min_sec_re (u ''58147N/07720W'')) G_longdecsec = None \<and>
   retrieve_lat_long (u ''58147N/07720W'') = Inr (u ''58.235278'', u ''-77.333333'')"
  using retrieve_dms_eval [OF decimal_misses_58147 norm_58147 dms_takes_58147]
    dms_groups_58147
  by (simp add: convert_58147)

lemma frame_before:
  "gnames r \<inter> {G_latminsec, G_latmin, G_longmin} = {} \<Longrightarrow>
   passes minutes_before r minutes_before"
  by (rule passes_frame [where N = "{G_latminsec, G_latmin, G_longmin}"])
    (simp_all add: minutes_before_def)

lemma frame_after:
  "gnames r \<inter> {G_latmin, G_longmin} = {} \<Longrightarrow> passes minutes_after r minutes_after"
  by (rule passes_frame [where N = "{G_latmin, G_longmin}"]) (simp_all add: minutes_after_def)

text \<open>The optional minute-second group of the latitude, which starts with the minutes.\<close>

lemma latminsec_step:
  assumes "G_longmin \<notin> gnames (seqs (Grp G_latmin r # rs))"
  shows "passes minutes_before (Opt (Grp G_latminsec (seqs (Grp G_latmin r # rs))))
           minutes_before"
proof (rule passes_Opt)
  show "passes minutes_before (Grp G_latminsec (seqs (Grp G_latmin r # rs))) minutes_before"
    unfolding passes_def
  proof (intro allI impI)
    fix p t g p' t' g'
    assume b: "minutes_before g"
      and m: "(p', t', g') \<in> set (rmatch (Grp G_latminsec (seqs (Grp G_latmin r # rs))) (p, t, g))"
    from m obtain g0 where
      0: "(p', t', g0) \<in> set (rmatch (seqs (Grp G_latmin r # rs)) (p, t, g))" and
      g': "g' = g0(G_latminsec := Some (take (p' - p) t))"
      by auto
    from passes_Grp_first [of G_latmin r rs] 0 have "g0 G_latmin \<noteq> None"
      unfolding passes_def by blast
    moreover from rmatch_frame [OF 0 assms] b have "g0 G_longmin = None"
      by (auto simp: minutes_before_def)
    ultimately show "minutes_before g'" using g' by (auto simp: minutes_before_def)
  qed
qed simp

text \<open>The minutes of the longitude, looked for exactly when the latitude had its group.\<close>

lemma longminsec_step:
  assumes "G_latmin \<notin> gnames (seqs (Grp G_longminsec (seqs (Grp G_longmin r # rs)) # rs'))"
  shows "passes minutes_before
           (Cond G_latminsec (seqs (Grp G_longminsec (seqs (Grp G_longmin r # rs)) # rs')) Eps)
           minutes_after"
proof (rule passes_Cond)
  show "passes (\<lambda>g. minutes_before g \<and> g G_latminsec = None) Eps minutes_after"
    by (rule passes_Eps) (auto simp: minutes_before_def minutes_after_def)
  show "passes (\<lambda>g. minutes_before g \<and> g G_latminsec \<noteq> None)
          (seqs (Grp G_longminsec (seqs (Grp G_longmin r # rs)) # rs')) minutes_after"
    unfolding passes_def
  proof (intro allI impI)
    fix p t g p' t' g'
    assume b: "minutes_before g \<and> g G_latminsec \<noteq> None"
      and m: "(p', t', g') \<in> set (rmatch
          (seqs (Grp G_longminsec (seqs (Grp G_longmin r # rs)) # rs')) (p, t, g))"
    from m obtain pm tm gm where
      1: "(pm, tm, gm) \<in> set (rmatch (Grp G_longminsec (seqs (Grp G_longmin r # rs))) (p, t, g))"
      and 2: "(p', t', g') \<in> set (rmatch (seqs rs') (pm, tm, gm))"
      unfolding rmatch_seqs_Cons by (metis prod_cases3)
    from 1 obtain g0 where
      0: "(pm, tm, g0) \<in> set (rmatch (seqs (Grp G_longmin r # rs)) (p, t, g))" and
      gm: "gm = g0(G_longminsec := Some (take (pm - p) t))"
      by auto
    from passes_Grp_first [of G_longmin r rs] 0 have "g0 G_longmin \<noteq> None"
      unfolding passes_def by blast
    with gm have "gm G_longmin \<noteq> None" by simp
    with rmatch_mono [OF 2] have "g' G_longmin \<noteq> None" by simp
    moreover from rmatch_frame [OF m assms] b have "g' G_latmin \<noteq> None"
      by (auto simp: minutes_before_def)
    ultimately show "minutes_after g'" by (auto simp: minutes_after_def)
  qed
qed

lemmas gname_defs = seqs_def sp_def osp_def digit_range_def ns_word_def ew_word_def
  long_degrees_def deg_mark_def minutes_re_def minute_mark_def seconds_re_def second_mark_def

lemma dms_minutes: "passes minutes_before degree_min_sec_re minutes_after"
  unfolding degree_min_sec_re_def
  apply (rule passes_seqs_Cons [OF frame_before], simp add: gname_defs)
  apply (rule passes_seqs_Cons [OF frame_before], simp add: gname_defs)
  apply (rule passes_seqs_Cons [OF frame_before], simp add: gname_defs)
  apply (rule passes_seqs_Cons [OF frame_before], simp add: gname_defs)
  apply (rule passes_seqs_Cons [OF frame_before], simp add: gname_defs)
  apply (rule passes_seqs_Cons [OF latminsec_step], simp add: gname_defs)
  apply (rule passes_seqs_Cons [OF frame_before], simp add: gname_defs)
  apply (rule passes_seqs_Cons [OF frame_before], simp add: gname_defs)
  apply (rule passes_seqs_Cons [OF frame_before], simp add: gname_defs)
  apply (rule passes_seqs_Cons [OF frame_before], simp add: gname_defs)
  apply (rule passes_seqs_Cons [OF frame_before], simp add: gname_defs)
  apply (rule passes_seqs_Cons [OF frame_before], simp add: gname_defs)
  apply (rule passes_seqs_Cons [OF longminsec_step], simp add: gname_defs)
  apply (rule passes_seqs_Cons [OF frame_after], simp add: gname_defs)
  apply (rule passes_seqs_Cons [OF frame_after], simp add: gname_defs)
  apply (rule passes_seqs_Cons [OF frame_after], simp add: gname_defs)
  apply (rule passes_seqs_Nil)
  apply assumption
  done

lemma match_at_in_set:
  "match_at r pos rest = Some m \<Longrightarrow>
   \<exists>p' t'. (p', t', m_groupdict m) \<in> set (rmatch r (pos, rest, \<lambda>_. None))"
  by (fastforce simp: match_at_def split: list.splits)

text \<open>
  Inputs written with minutes on one coordinate only. The pattern has no notion of how an
  input was meant: it splits the digits wherever a match results.
\<close>

lemma decimal_misses_5814_077: "re_match decimal_degree_re (u ''5814N/077W'') = None"
  by (simp add: match_defs re_defs)

lemma norm_5814_077: "normalize_string (u ''5814N/077W'') = u ''5814N/077W''"
  by (simp add: norm_defs)

lemma dms_takes_5814_077:
  "map_option (cleanup \<circ> m_groupdict) (re_match degree_min_sec_re (u ''5814N/077W'')) =
   Some \<lparr>latdir = Some (u ''N''), latdeg = Some (u ''58''), latmin = u ''14'',
         latsec = u ''00'', longdir = Some (u ''W''), longdeg = Some (u ''07''),
         longmin = u ''7'', longsec = u ''00''\<rparr>"
  by (simp add: match_defs re_defs clean_defs)

lemma convert_5814_077:
  "convert_to_lat_lng
     \<lparr>latdir = Some (u ''N''), latdeg = Some (u ''58''), latmin = u ''14'',
      latsec = u ''00'', longdir = Some (u ''W''), longdeg = Some (u ''07''),
      longmin = u ''7'', longsec = u ''00''\<rparr> =
   Inr (u ''58.233'', u ''-7.117'')"
  by (simp add: dec_defs)

lemma decimal_misses_58_07720: "re_match decimal_degree_re (u ''58N/07720W'') = None"
  by (simp add: match_defs re_defs)

lemma norm_58_07720: "normalize_string (u ''58N/07720W'') = u ''58N/07720W''"
  by (simp add: norm_defs)

lemma dms_takes_58_07720:
  "map_option (cleanup \<circ> m_groupdict) (re_match degree_min_sec_re (u ''58N/07720W'')) =
   Some \<lparr>latdir = Some (u ''N''), latdeg = Some (u ''5''), latmin = u ''8'',
         latsec = u ''00'', longdir = Some (u ''W''), longdeg = Some (u ''077''),
         longmin = u ''20'', longsec = u ''00''\<rparr>"
  by (simp add: match_defs re_defs clean_defs)

lemma convert_58_07720:
  "convert_to_lat_lng
     \<lparr>latdir = Some (u ''N''), latdeg = Some (u ''5''), latmin = u ''8'',
      latsec = u ''00'', longdir = Some (u ''W''), longdeg = Some (u ''077''),
      longmin = u ''20'', longsec = u ''00''\<rparr> =
   Inr (u ''5.133'', u ''-77.333'')"
  by (simp add: dec_defs)

lemma decimal_misses_5814_77: "re_match decimal_degree_re (u ''5814N/77W'') = None"
  by (simp add: match_defs re_defs)

lemma norm_5814_77: "normalize_string (u ''5814N/77W'') = u ''5814N/77W''"
  by (simp add: norm_defs)

lemma dms_misses_5814_77: "re_match degree_min_sec_re (u ''5814N/77W'') = None"
  by (simp add: match_defs re_defs)

lemma retrieve_resplit:
  "retrieve_lat_long (u ''5814N/077W'') = Inr (u ''58.233'', u ''-7.117'')"
  "retrieve_lat_long (u ''58N/07720W'') = Inr (u ''5.133'', u ''-77.333'')"
  "retrieve_lat_long (u ''5814N/77W'') = Inl AttributeError"
  using retrieve_dms_eval [OF decimal_misses_5814_077 norm_5814_077 dms_takes_5814_077]
    retrieve_dms_eval [OF decimal_misses_58_07720 norm_58_07720 dms_takes_58_07720]
    retrieve_no_match [OF decimal_misses_5814_77 norm_5814_77 dms_misses_5814_77]
  by (simp_all only: convert_5814_077 convert_58_07720)

text \<open>
  C5, amended. The DMS pattern enforces the symmetry for the minutes only, and as a property
  of the captures of a match: in every match the longitude minutes are captured exactly when
  the latitude minutes are. Seconds are optional for each coordinate on its own:
  \<^verbatim>\<open>"58147N/07720W"\<close> matches with latitude seconds 7 and no longitude seconds, and converts
  to (58.235278, -77.333333). An input written with minutes on one coordinate only is not
  rejected as such: \<^verbatim>\<open>"5814N/77W"\<close> does not match and \<^verbatim>\<open>retrieve_lat_long\<close> fails on it,
  but \<^verbatim>\<open>"5814N/077W"\<close> matches as 58 degrees 14 minutes and 07 degrees 7 minutes and
  converts to (58.233, -7.117), and \<^verbatim>\<open>"58N/07720W"\<close> matches as 5 degrees 8 minutes and
  077 degrees 20 minutes and converts to (5.133, -77.333).
\<close>

theorem minutes_on_both_sides:
  "(\<forall>s m. re_match degree_min_sec_re s = Some m \<longrightarrow>
      (m_groupdict m G_latmin \<noteq> None \<longleftrightarrow> m_groupdict m G_longmin \<noteq> None)) \<and>
   group_of (re_match degree_min_sec_re (u ''58147N/07720W'')) G_latsec = Some (u ''7'') \<and>
   group_of (re_match degree_min_sec_re (u ''58147N/07720W'')) G_longsec = None \<and>
   group_of (re_match degree_min_sec_re (u ''58147N/07720W'')) G_longdecsec = None \<and>
   retrieve_lat_long (u ''58147N/07720W'') = Inr (u ''58.235278'', u ''-77.333333'') \<and>
   re_match degree_min_sec_re (u ''5814N/77W'') = None \<and>
   retrieve_lat_long (u ''5814N/77W'') = Inl AttributeError \<and>
   map_option (cleanup \<circ> m_groupdict) (re_match degree_min_sec_re (u ''5814N/077W'')) =
     Some \<lparr>latdir = Some (u ''N''), latdeg = Some (u ''58''), latmin = u ''14'',
           latsec = u ''00'', longdir = Some (u ''W''), longdeg = Some (u ''07''),
           longmin = u ''7'', longsec = u ''00''\<rparr> \<and>
   retrieve_lat_long (u ''5814N/077W'') = Inr (u ''58.233'', u ''-7.117'') \<and>
   map_option (cleanup \<circ> m_groupdict) (re_match degree_min_sec_re (u ''58N/07720W'')) =
     Some \<lparr>latdir = Some (u ''N''), latdeg = Some (u ''5''), latmin = u ''8'',
           latsec = u ''00'', longdir = Some (u ''W''), longdeg = Some (u ''077''),
           longmin = u ''20'', longsec = u ''00''\<rparr> \<and>
   retrieve_lat_long (u ''58N/07720W'') = Inr (u ''5.133'', u ''-77.333'')"
proof -
  have "m_groupdict m G_latmin \<noteq> None \<longleftrightarrow> m_groupdict m G_longmin \<noteq> None"
    if "re_match degree_min_sec_re s = Some m" for s m
  proof -
    from that obtain p' t' where
      "(p', t', m_groupdict m) \<in> set (rmatch degree_min_sec_re (0, s, \<lambda>_. None))"
      unfolding re_match_def using match_at_in_set by blast
    moreover have "minutes_before (\<lambda>_. None)" by (simp add: minutes_before_def)
    ultimately have "minutes_after (m_groupdict m)"
      using dms_minutes unfolding passes_def by blast
    then show ?thesis by (simp add: minutes_after_def)
  qed
  then have "\<forall>s m. re_match degree_min_sec_re s = Some m \<longrightarrow>
      (m_groupdict m G_latmin \<noteq> None \<longleftrightarrow> m_groupdict m G_longmin \<noteq> None)"
    by blast
  moreover have "retrieve_lat_long (u ''58147N/07720W'') = Inr (u ''58.235278'', u ''-77.333333'')"
    using retrieve_dms_eval [OF decimal_misses_58147 norm_58147 dms_takes_58147]
    by (simp only: convert_58147)
  ultimately show ?thesis
    using dms_groups_58147(2,4,5) dms_misses_5814_77 retrieve_resplit dms_takes_5814_077
      dms_takes_58_07720
    by (simp only: simp_thms)
qed

theorem minutes_on_both_sides_witness:
  "re_match degree_min_sec_re (u ''58147N/07720W'') \<noteq> None \<and>
   group_of (re_match degree_min_sec_re (u ''58147N/07720W'')) G_latmin = Some (u ''14'') \<and>
   group_of (re_match degree_min_sec_re (u ''58147N/07720W'')) G_longmin \<noteq> None"
proof -
  obtain m where m: "re_match degree_min_sec_re (u ''58147N/07720W'') = Some m"
    using dms_groups_58147(1) by blast
  with dms_groups_58147(6) have "m_groupdict m G_latmin \<noteq> None" by (simp add: group_of_def)
  with minutes_on_both_sides [THEN conjunct1, rule_format, OF m]
  have "m_groupdict m G_longmin \<noteq> None" by simp
  with m dms_groups_58147(6) show ?thesis by (simp add: group_of_def)
qed

text \<open>
  A number of \<^verbatim>\<open>decimal_degree_re\<close>: the digits \<open>A\<close>, an optional point in a group of its
  own, and then digits if the point is there, one character that is no digit otherwise, all
  inside the capturing group \<open>n\<close>. When the point is absent at the end of the match, the
  capture is the digits and that one character.
\<close>

lemma number_capture:
  assumes pt: "pt \<noteq> n"
    and width: "\<And>p t g p1 t1 g1. (p1, t1, g1) \<in> set (rmatch A (p, t, g)) \<Longrightarrow> p1 - p \<in> W"
  shows "passes (\<lambda>g. True)
           (Grp n (seqs [A, Opt (Grp pt (Lit 46)), Cond pt digits (Set True [Dig])]))
           (\<lambda>g. g pt = None \<longrightarrow>
              (\<exists>ds c. g n = Some (ds @ [c]) \<and> length ds \<in> W \<and> \<not> is_digit c))"
  unfolding passes_def
proof (intro allI impI)
  fix p t g p' t' g'
  assume m: "(p', t', g') \<in> set (rmatch
      (Grp n (seqs [A, Opt (Grp pt (Lit 46)), Cond pt digits (Set True [Dig])])) (p, t, g))"
    and none: "g' pt = None"
  from m obtain g0 where
    0: "(p', t', g0) \<in> set (rmatch
        (seqs [A, Opt (Grp pt (Lit 46)), Cond pt digits (Set True [Dig])]) (p, t, g))"
    and g': "g' = g0(n := Some (take (p' - p) t))"
    by auto
  from none g' pt have none0: "g0 pt = None" by simp
  from 0 obtain s1 where
    a1: "s1 \<in> set (rmatch A (p, t, g))" and
    r1: "(p', t', g0) \<in> set (rmatch
        (seqs [Opt (Grp pt (Lit 46)), Cond pt digits (Set True [Dig])]) s1)"
    unfolding rmatch_seqs_Cons by blast
  from r1 obtain s2 where
    o2: "s2 \<in> set (rmatch (Opt (Grp pt (Lit 46))) s1)" and
    r2: "(p', t', g0) \<in> set (rmatch (seqs [Cond pt digits (Set True [Dig])]) s2)"
    unfolding rmatch_seqs_Cons by blast
  from r2 have c2: "(p', t', g0) \<in> set (rmatch (Cond pt digits (Set True [Dig])) s2)"
    unfolding rmatch_seqs_Cons by (simp add: seqs_def)
  obtain p1 t1 g1 where s1: "s1 = (p1, t1, g1)" by (cases s1)
  obtain p2 t2 g2 where s2: "s2 = (p2, t2, g2)" by (cases s2)
  from a1 s1 have a: "(p1, t1, g1) \<in> set (rmatch A (p, t, g))" by simp
  from o2 s1 s2 have
    o: "(p2, t2, g2) \<in> set (rmatch (Opt (Grp pt (Lit 46))) (p1, t1, g1))" by simp
  from c2 s2 have
    c: "(p', t', g0) \<in> set (rmatch (Cond pt digits (Set True [Dig])) (p2, t2, g2))" by simp
  have none2: "g2 pt = None"
  proof (cases "g2 pt")
    case (Some y)
    with rmatch_mono [OF c, of pt] none0 show ?thesis by simp
  qed simp
  with o have same: "p2 = p1" "t2 = t1" by (auto split: list.splits if_splits)
  from c none2 same obtain x where t1: "t1 = x # t'" and x: "\<not> is_digit x" and p': "p' = p1 + 1"
    by (auto simp: in_set_def split: list.splits if_splits)
  from rmatch_suffix [OF a] have le: "p \<le> p1" and d: "t1 = drop (p1 - p) t" by simp_all
  from d t1 have lt: "p1 - p < length t" by (metis drop_all leI list.distinct(1))
  with d t1 have nth: "t ! (p1 - p) = x" by (metis hd_drop_conv_nth list.sel(1))
  from le p' have "p' - p = Suc (p1 - p)" by simp
  with lt nth have "take (p' - p) t = take (p1 - p) t @ [x]"
    by (simp add: take_Suc_conv_app_nth)
  moreover from lt have "length (take (p1 - p) t) = p1 - p" by simp
  ultimately show "\<exists>ds c. g' n = Some (ds @ [c]) \<and> length ds \<in> W \<and> \<not> is_digit c"
    using g' x width [OF a] by auto
qed

lemma lat_width:
  "(p1, t1, g1) \<in> set (rmatch (Alt (Seq (digit_range 0 8) (digit_range 0 9)) (Str (u ''90'')))
      (p, t, g)) \<Longrightarrow> p1 - p \<in> {2}"
  by (auto simp: digit_range_def u_def split: list.splits if_splits)

lemma long_width:
  "(p1, t1, g1) \<in> set (rmatch long_degrees (p, t, g)) \<Longrightarrow> p1 - p \<in> {2, 3}"
  by (auto simp: long_degrees_def digit_range_def u_def split: list.splits if_splits)

lemma passes_any: "passes (\<lambda>g. True) r (\<lambda>g. True)"
  by (simp add: passes_def)

lemma frame_latitude:
  "gnames r \<inter> {G_latpoint, G_latitude} = {} \<Longrightarrow>
   passes (\<lambda>g. g G_latpoint = None \<longrightarrow>
             (\<exists>ds c. g G_latitude = Some (ds @ [c]) \<and> length ds \<in> {2} \<and> \<not> is_digit c)) r
          (\<lambda>g. g G_latpoint = None \<longrightarrow>
             (\<exists>ds c. g G_latitude = Some (ds @ [c]) \<and> length ds \<in> {2} \<and> \<not> is_digit c))"
  by (rule passes_frame [where N = "{G_latpoint, G_latitude}"]) simp_all

lemma frame_longitude:
  "gnames r \<inter> {G_longpoint, G_longitude} = {} \<Longrightarrow>
   passes (\<lambda>g. g G_longpoint = None \<longrightarrow>
             (\<exists>ds c. g G_longitude = Some (ds @ [c]) \<and> length ds \<in> {2, 3} \<and> \<not> is_digit c)) r
          (\<lambda>g. g G_longpoint = None \<longrightarrow>
             (\<exists>ds c. g G_longitude = Some (ds @ [c]) \<and> length ds \<in> {2, 3} \<and> \<not> is_digit c))"
  by (rule passes_frame [where N = "{G_longpoint, G_longitude}"]) simp_all

lemmas decimal_gname_defs = seqs_def ns_word_def ew_word_def ns_sign_def ew_sign_def
  long_degrees_def degrees_word_def digit_range_def

lemma decimal_latitude:
  "passes (\<lambda>g. True) decimal_degree_re
     (\<lambda>g. g G_latpoint = None \<longrightarrow>
        (\<exists>ds c. g G_latitude = Some (ds @ [c]) \<and> length ds \<in> {2} \<and> \<not> is_digit c))"
  unfolding decimal_degree_re_def
  apply (rule passes_seqs_Cons [OF passes_any])
  apply (rule passes_seqs_Cons [OF passes_any])
  apply (rule passes_seqs_Cons [OF passes_any])
  apply (rule passes_seqs_Cons [OF passes_any])
  apply (rule passes_seqs_Cons [OF number_capture [where W = "{2}"]], simp, erule lat_width)
  apply (rule passes_seqs_Cons [OF frame_latitude], simp add: decimal_gname_defs)
  apply (rule passes_seqs_Cons [OF frame_latitude], simp add: decimal_gname_defs)
  apply (rule passes_seqs_Cons [OF frame_latitude], simp add: decimal_gname_defs)
  apply (rule passes_seqs_Cons [OF frame_latitude], simp add: decimal_gname_defs)
  apply (rule passes_seqs_Cons [OF frame_latitude], simp add: decimal_gname_defs)
  apply (rule passes_seqs_Cons [OF frame_latitude], simp add: decimal_gname_defs)
  apply (rule passes_seqs_Cons [OF frame_latitude], simp add: decimal_gname_defs)
  apply (rule passes_seqs_Cons [OF frame_latitude], simp add: decimal_gname_defs)
  apply (rule passes_seqs_Cons [OF frame_latitude], simp add: decimal_gname_defs)
  apply (rule passes_seqs_Cons [OF frame_latitude], simp add: decimal_gname_defs)
  apply (rule passes_seqs_Cons [OF frame_latitude], simp add: decimal_gname_defs)
  apply (rule passes_seqs_Cons [OF frame_latitude], simp add: decimal_gname_defs)
  apply (rule passes_seqs_Cons [OF frame_latitude], simp add: decimal_gname_defs)
  apply (rule passes_seqs_Cons [OF frame_latitude], simp add: decimal_gname_defs)
  apply (rule passes_seqs_Nil)
  apply assumption
  done

lemma decimal_longitude:
  "passes (\<lambda>g. True) decimal_degree_re
     (\<lambda>g. g G_longpoint = None \<longrightarrow>
        (\<exists>ds c. g G_longitude = Some (ds @ [c]) \<and> length ds \<in> {2, 3} \<and> \<not> is_digit c))"
  unfolding decimal_degree_re_def
  apply (rule passes_seqs_Cons [OF passes_any])
  apply (rule passes_seqs_Cons [OF passes_any])
  apply (rule passes_seqs_Cons [OF passes_any])
  apply (rule passes_seqs_Cons [OF passes_any])
  apply (rule passes_seqs_Cons [OF passes_any])
  apply (rule passes_seqs_Cons [OF passes_any])
  apply (rule passes_seqs_Cons [OF passes_any])
  apply (rule passes_seqs_Cons [OF passes_any])
  apply (rule passes_seqs_Cons [OF passes_any])
  apply (rule passes_seqs_Cons [OF passes_any])
  apply (rule passes_seqs_Cons [OF passes_any])
  apply (rule passes_seqs_Cons [OF passes_any])
  apply (rule passes_seqs_Cons [OF number_capture [where W = "{2, 3}"]], simp, erule long_width)
  apply (rule passes_seqs_Cons [OF frame_longitude], simp add: decimal_gname_defs)
  apply (rule passes_seqs_Cons [OF frame_longitude], simp add: decimal_gname_defs)
  apply (rule passes_seqs_Cons [OF frame_longitude], simp add: decimal_gname_defs)
  apply (rule passes_seqs_Cons [OF frame_longitude], simp add: decimal_gname_defs)
  apply (rule passes_seqs_Cons [OF frame_longitude], simp add: decimal_gname_defs)
  apply (rule passes_seqs_Cons [OF frame_longitude], simp add: decimal_gname_defs)
  apply (rule passes_seqs_Nil)
  apply assumption
  done

text \<open>
  C10. In every match of the decimal-degree pattern in which a number has no decimal point,
  the capture of that number is its two (for the longitude, two or three) digits and one
  more character, which is no digit. In \<^verbatim>\<open>"52N 43E"\<close> the pattern matches, the latitude
  capture is \<^verbatim>\<open>"52N"\<close>, which \<^verbatim>\<open>Decimal\<close> does not accept, and \<^verbatim>\<open>retrieve_lat_long\<close> fails with
  \<^verbatim>\<open>InvalidOperation\<close>.
\<close>

theorem capture_with_terminator:
  "(\<forall>s m. re_match decimal_degree_re s = Some m \<and> m_groupdict m G_latpoint = None \<longrightarrow>
      (\<exists>ds c. m_groupdict m G_latitude = Some (ds @ [c]) \<and> length ds = 2 \<and> \<not> is_digit c)) \<and>
   (\<forall>s m. re_match decimal_degree_re s = Some m \<and> m_groupdict m G_longpoint = None \<longrightarrow>
      (\<exists>ds c. m_groupdict m G_longitude = Some (ds @ [c]) \<and>
         (length ds = 2 \<or> length ds = 3) \<and> \<not> is_digit c)) \<and>
   re_match decimal_degree_re (u ''52N 43E'') \<noteq> None \<and>
   group_of (re_match decimal_degree_re (u ''52N 43E'')) G_latitude = Some (u ''52N'') \<and>
   parse_decimal (u ''52N'') = Malformed \<and>
   retrieve_lat_long (u ''52N 43E'') = Inl InvalidOperation"
proof (intro conjI allI impI)
  fix s m
  assume h: "re_match decimal_degree_re s = Some m \<and> m_groupdict m G_latpoint = None"
  then obtain p' t' where
    "(p', t', m_groupdict m) \<in> set (rmatch decimal_degree_re (0, s, \<lambda>_. None))"
    unfolding re_match_def using match_at_in_set by blast
  with decimal_latitude h
  show "\<exists>ds c. m_groupdict m G_latitude = Some (ds @ [c]) \<and> length ds = 2 \<and> \<not> is_digit c"
    unfolding passes_def by fastforce
next
  fix s m
  assume h: "re_match decimal_degree_re s = Some m \<and> m_groupdict m G_longpoint = None"
  then obtain p' t' where
    "(p', t', m_groupdict m) \<in> set (rmatch decimal_degree_re (0, s, \<lambda>_. None))"
    unfolding re_match_def using match_at_in_set by blast
  with decimal_longitude h
  show "\<exists>ds c. m_groupdict m G_longitude = Some (ds @ [c]) \<and>
      (length ds = 2 \<or> length ds = 3) \<and> \<not> is_digit c"
    unfolding passes_def by fastforce
next
  show "retrieve_lat_long (u ''52N 43E'') = Inl InvalidOperation"
    by (rule retrieve_decimal_eval [OF decimal_takes_52N])
qed (simp_all add: decimal_groups_52N parse_52N)

theorem capture_with_terminator_witness:
  "re_match decimal_degree_re (u ''52N 43E'') \<noteq> None \<and>
   group_of (re_match decimal_degree_re (u ''52N 43E'')) G_latpoint = None \<and>
   (\<exists>ds c. group_of (re_match decimal_degree_re (u ''52N 43E'')) G_latitude = Some (ds @ [c]) \<and>
      length ds = 2 \<and> \<not> is_digit c)"
proof -
  obtain m where m: "re_match decimal_degree_re (u ''52N 43E'') = Some m"
    using decimal_groups_52N(4) by blast
  with decimal_groups_52N(2) have "m_groupdict m G_latpoint = None" by (simp add: group_of_def)
  with capture_with_terminator [THEN conjunct1, rule_format, of "u ''52N 43E''" m] m
  have "\<exists>ds c. m_groupdict m G_latitude = Some (ds @ [c]) \<and> length ds = 2 \<and> \<not> is_digit c"
    by simp
  with m decimal_groups_52N(2) show ?thesis by (simp add: group_of_def)
qed

section \<open>No direction, no sign\<close>

lemma decimal_misses_43_53: "re_match decimal_degree_re (u ''43 53 50, 80 03 06'') = None"
  by (simp add: match_defs re_defs)

lemma norm_43_53: "normalize_string (u ''43 53 50, 80 03 06'') = u ''43 53 50, 80 03 06''"
  by (simp add: norm_defs)

lemma dms_takes_43_53:
  "map_option (cleanup \<circ> m_groupdict) (re_match degree_min_sec_re (u ''43 53 50, 80 03 06'')) =
   Some \<lparr>latdir = None, latdeg = Some (u ''43''), latmin = u ''53'', latsec = u ''50'',
         longdir = None, longdeg = Some (u ''80''), longmin = u ''03'', longsec = u ''06''\<rparr>"
  by (simp add: match_defs re_defs clean_defs)

lemma dms_captures_43_53:
  "map_option
     (\<lambda>m. map (m_groupdict m) [G_longdir, G_longdir2, G_longsign, G_latdir, G_latdir2, G_latsign])
     (re_match degree_min_sec_re (u ''43 53 50, 80 03 06'')) =
   Some [None, None, None, None, None, None]"
  by (simp add: match_defs re_defs)

lemma dms_groups_43_53:
  "re_match degree_min_sec_re (u ''43 53 50, 80 03 06'') \<noteq> None"
  "group_of (re_match degree_min_sec_re (u ''43 53 50, 80 03 06'')) G_longdir = None"
  "group_of (re_match degree_min_sec_re (u ''43 53 50, 80 03 06'')) G_longdir2 = None"
  "group_of (re_match degree_min_sec_re (u ''43 53 50, 80 03 06'')) G_longsign = None"
  "group_of (re_match degree_min_sec_re (u ''43 53 50, 80 03 06'')) G_latdir = None"
  "group_of (re_match degree_min_sec_re (u ''43 53 50, 80 03 06'')) G_latdir2 = None"
  "group_of (re_match degree_min_sec_re (u ''43 53 50, 80 03 06'')) G_latsign = None"
  using dms_captures_43_53 by (auto simp: group_of_def)

lemma convert_43_53:
  "convert_decimals
     \<lparr>latdir = None, latdeg = Some (u ''43''), latmin = u ''53'', latsec = u ''50'',
      longdir = None, longdeg = Some (u ''80''), longmin = u ''03'', longsec = u ''06''\<rparr> =
   Inr (Fin False 43897222 (- 6), Fin False 80051667 (- 6))"
  by (simp add: dec_defs)

lemma str_43_53:
  "dec_str (Fin False 43897222 (- 6)) = u ''43.897222''"
  "dec_str (Fin False 80051667 (- 6)) = u ''80.051667''"
  by (simp_all add: dec_defs)

text \<open>
  C6, as stated, fails: \<^verbatim>\<open>"43 53 50, 80 03 06"\<close> matches the DMS pattern without any
  direction token or sign; the field normalizer leaves the longitude hemisphere at \<^verbatim>\<open>None\<close>
  and the longitude comes out positive.
\<close>

theorem no_west_by_default:
  "re_match degree_min_sec_re (u ''43 53 50, 80 03 06'') \<noteq> None \<and>
   group_of (re_match degree_min_sec_re (u ''43 53 50, 80 03 06'')) G_longdir = None \<and>
   group_of (re_match degree_min_sec_re (u ''43 53 50, 80 03 06'')) G_longdir2 = None \<and>
   group_of (re_match degree_min_sec_re (u ''43 53 50, 80 03 06'')) G_longsign = None \<and>
   map_option (longdir \<circ> cleanup \<circ> m_groupdict)
     (re_match degree_min_sec_re (u ''43 53 50, 80 03 06'')) = Some None \<and>
   retrieve_lat_long (u ''43 53 50, 80 03 06'') = Inr (u ''43.897222'', u ''80.051667'')"
proof -
  obtain m where m: "re_match degree_min_sec_re (u ''43 53 50, 80 03 06'') = Some m"
    using dms_groups_43_53(1) by blast
  with dms_takes_43_53 have "longdir (cleanup (m_groupdict m)) = None" by simp
  with m have "map_option (longdir \<circ> cleanup \<circ> m_groupdict)
     (re_match degree_min_sec_re (u ''43 53 50, 80 03 06'')) = Some None" by simp
  moreover have "retrieve_lat_long (u ''43 53 50, 80 03 06'') =
      Inr (u ''43.897222'', u ''80.051667'')"
    using retrieve_dms_eval [OF decimal_misses_43_53 norm_43_53 dms_takes_43_53]
    by (simp add: convert_to_lat_lng_def convert_43_53 str_43_53 del: dec_str.simps)
  ultimately show ?thesis using dms_groups_43_53 by simp
qed

lemma dec_fix_sign: "\<exists>c' e'. dec_fix p (Fin s c e) = Fin s c' e'"
  by (simp add: Let_def)

lemma nonneg_dec_fix: "nonneg (dec_fix p d) = nonneg d"
proof (cases d)
  case (Fin s c e)
  from dec_fix_sign [of p s c e] obtain c' e' where "dec_fix p (Fin s c e) = Fin s c' e'"
    by blast
  with Fin show ?thesis by simp
qed simp

lemma nonneg_rescale: "nonneg (rescale d q) = nonneg d"
  by (cases d) simp_all

lemma nonneg_dec_add: "nonneg a \<Longrightarrow> nonneg b \<Longrightarrow> nonneg (dec_add p a b)"
  by (cases a; cases b)
    (simp_all add: Let_def nonneg_dec_fix nonneg_rescale split: prod.splits del: dec_fix.simps rescale.simps)

lemma nonneg_dec_div: "nonneg a \<Longrightarrow> nonneg (dec_div p a (Fin False k 0))"
  by (cases a)
    (simp_all add: Let_def nonneg_dec_fix split: prod.splits del: dec_fix.simps)

lemma nonneg_quantize: "nonneg d \<Longrightarrow> nonneg (quantize p d q)"
  by (cases d) (auto split: decimal.splits if_splits)

lemma nonneg_dms_sum:
  "nonneg d \<Longrightarrow> nonneg m \<Longrightarrow> nonneg s \<Longrightarrow> nonneg (dms_sum d m s k)"
  by (simp add: dms_sum_def nonneg_dec_add nonneg_dec_div)

lemma cleanup_no_direction:
  "parts G_latdir = None \<Longrightarrow> parts G_latdir2 = None \<Longrightarrow> parts G_latsign = None \<Longrightarrow>
   latdir (cleanup parts) = None"
  "parts G_longdir = None \<Longrightarrow> parts G_longdir2 = None \<Longrightarrow> parts G_longsign = None \<Longrightarrow>
   longdir (cleanup parts) = None"
  by (simp_all add: cleanup_def py_or_def truthy_def Let_def)

text \<open>
  C6, amended. The field normalizer has no default: a coordinate of the match without
  direction token and without sign gets no hemisphere at all (\<^verbatim>\<open>None\<close>), latitude and
  longitude alike. The converter negates for \<^verbatim>\<open>'S'\<close> and \<^verbatim>\<open>'W'\<close> only, so with no
  hemisphere and fields that read as non-negative numbers, neither the latitude nor the
  longitude is negative.
\<close>

theorem no_hemisphere_no_negation:
  "(\<forall>parts. parts G_latdir = None \<and> parts G_latdir2 = None \<and> parts G_latsign = None \<longrightarrow>
      latdir (cleanup parts) = None) \<and>
   (\<forall>parts. parts G_longdir = None \<and> parts G_longdir2 = None \<and> parts G_longsign = None \<longrightarrow>
      longdir (cleanup parts) = None) \<and>
   (\<forall>f d1 m1 s1 d2 m2 s2.
      Decimal_ext (latdeg f) = Inr d1 \<and> Decimal_ext (Some (latmin f)) = Inr m1 \<and>
      Decimal_ext (Some (latsec f)) = Inr s1 \<and> Decimal_ext (longdeg f) = Inr d2 \<and>
      Decimal_ext (Some (longmin f)) = Inr m2 \<and> Decimal_ext (Some (longsec f)) = Inr s2 \<and>
      nonneg d1 \<and> nonneg m1 \<and> nonneg s1 \<and> nonneg d2 \<and> nonneg m2 \<and> nonneg s2 \<and>
      latdir f = None \<and> longdir f = None \<longrightarrow>
      (\<exists>lat lng. convert_decimals f = Inr (lat, lng) \<and> nonneg lat \<and> nonneg lng))"
proof (intro conjI allI impI)
  fix f :: fields and d1 m1 s1 d2 m2 s2 :: decimal
  assume h: "Decimal_ext (latdeg f) = Inr d1 \<and> Decimal_ext (Some (latmin f)) = Inr m1 \<and>
      Decimal_ext (Some (latsec f)) = Inr s1 \<and> Decimal_ext (longdeg f) = Inr d2 \<and>
      Decimal_ext (Some (longmin f)) = Inr m2 \<and> Decimal_ext (Some (longsec f)) = Inr s2 \<and>
      nonneg d1 \<and> nonneg m1 \<and> nonneg s1 \<and> nonneg d2 \<and> nonneg m2 \<and> nonneg s2 \<and>
      latdir f = None \<and> longdir f = None"
  let ?k = "if dec_gt s1 59 \<or> dec_gt s2 59 then 100 else 60 :: nat"
  from h have "convert_decimals f =
      Inr (quantize 9 (dms_sum d1 m1 s1 ?k) (- int (precision_places f)),
           quantize 9 (dms_sum d2 m2 s2 ?k) (- int (precision_places f)))"
    using convert_decimals_shared [of f d1 m1 s1 d2 m2 s2] by (simp add: Let_def)
  moreover from h have "nonneg (quantize 9 (dms_sum d1 m1 s1 ?k) (- int (precision_places f)))"
    by (intro nonneg_quantize nonneg_dms_sum) simp_all
  moreover from h have "nonneg (quantize 9 (dms_sum d2 m2 s2 ?k) (- int (precision_places f)))"
    by (intro nonneg_quantize nonneg_dms_sum) simp_all
  ultimately show "\<exists>lat lng. convert_decimals f = Inr (lat, lng) \<and> nonneg lat \<and> nonneg lng"
    by blast
qed (simp_all add: cleanup_no_direction)

text \<open>The match of \<^verbatim>\<open>"43 53 50, 80 03 06"\<close>.\<close>

theorem no_hemisphere_no_negation_witness:
  "re_match degree_min_sec_re (u ''43 53 50, 80 03 06'') \<noteq> None \<and>
   group_of (re_match degree_min_sec_re (u ''43 53 50, 80 03 06'')) G_longdir = None \<and>
   group_of (re_match degree_min_sec_re (u ''43 53 50, 80 03 06'')) G_longdir2 = None \<and>
   group_of (re_match degree_min_sec_re (u ''43 53 50, 80 03 06'')) G_longsign = None \<and>
   map_option (longdir \<circ> cleanup \<circ> m_groupdict)
     (re_match degree_min_sec_re (u ''43 53 50, 80 03 06'')) = Some None \<and>
   Decimal_ext (Some (u ''43'')) = Inr (Fin False 43 0) \<and>
   Decimal_ext (Some (u ''53'')) = Inr (Fin False 53 0) \<and>
   Decimal_ext (Some (u ''50'')) = Inr (Fin False 50 0) \<and>
   Decimal_ext (Some (u ''80'')) = Inr (Fin False 80 0) \<and>
   Decimal_ext (Some (u ''03'')) = Inr (Fin False 3 0) \<and>
   Decimal_ext (Some (u ''06'')) = Inr (Fin False 6 0) \<and>
   (\<exists>lat lng.
      convert_decimals
        \<lparr>latdir = None, latdeg = Some (u ''43''), latmin = u ''53'', latsec = u ''50'',
         longdir = None, longdeg = Some (u ''80''), longmin = u ''03'', longsec = u ''06''\<rparr> =
        Inr (lat, lng) \<and> nonneg lat \<and> nonneg lng)"
proof -
  let ?f = "\<lparr>latdir = None, latdeg = Some (u ''43''), latmin = u ''53'', latsec = u ''50'',
         longdir = None, longdeg = Some (u ''80''), longmin = u ''03'', longsec = u ''06''\<rparr>"
  obtain m where m: "re_match degree_min_sec_re (u ''43 53 50, 80 03 06'') = Some m"
    using dms_groups_43_53(1) by blast
  with dms_groups_43_53 have g: "m_groupdict m G_longdir = None"
    "m_groupdict m G_longdir2 = None" "m_groupdict m G_longsign = None"
    by (simp_all add: group_of_def)
  have 1: "longdir (cleanup (m_groupdict m)) = None"
    using no_hemisphere_no_negation [THEN conjunct2, THEN conjunct1, rule_format,
        of "m_groupdict m"] g by simp
  have p: "Decimal_ext (Some (u ''43'')) = Inr (Fin False 43 0)"
    "Decimal_ext (Some (u ''53'')) = Inr (Fin False 53 0)"
    "Decimal_ext (Some (u ''50'')) = Inr (Fin False 50 0)"
    "Decimal_ext (Some (u ''80'')) = Inr (Fin False 80 0)"
    "Decimal_ext (Some (u ''03'')) = Inr (Fin False 3 0)"
    "Decimal_ext (Some (u ''06'')) = Inr (Fin False 6 0)"
    by (simp_all add: dec_defs)
  have 2: "\<exists>lat lng. convert_decimals ?f = Inr (lat, lng) \<and> nonneg lat \<and> nonneg lng"
    using no_hemisphere_no_negation [THEN conjunct2, THEN conjunct2, rule_format,
        of ?f "Fin False 43 0" "Fin False 53 0" "Fin False 50 0"
           "Fin False 80 0" "Fin False 3 0" "Fin False 6 0"] p
    by simp
  from m 1 have "map_option (longdir \<circ> cleanup \<circ> m_groupdict)
     (re_match degree_min_sec_re (u ''43 53 50, 80 03 06'')) = Some None" by simp
  with dms_groups_43_53 p 2 show ?thesis by simp
qed

section \<open>Precision and rounding of the converter\<close>

lemma convert_10_0053:
  "convert_decimals
     \<lparr>latdir = Some (u ''N''), latdeg = Some (u ''10''), latmin = u ''00'',
      latsec = u ''0.0053'', longdir = Some (u ''W''), longdeg = Some (u ''100''),
      longmin = u ''00'', longsec = u ''00''\<rparr> =
   Inr (Fin False 10000002 (- 6), Fin True 100000000 (- 6))"
  by (simp add: dec_defs)

lemma str_10_0053:
  "dec_str (Fin False 10000002 (- 6)) = u ''10.000002''"
  "dec_str (Fin True 100000000 (- 6)) = u ''-100.000000''"
  by (simp_all add: dec_defs)

lemma parse_10_0053:
  "Decimal_ext (Some (u ''10'')) = Inr (Fin False 10 0)"
  "Decimal_ext (Some (u ''00'')) = Inr (Fin False 0 0)"
  "Decimal_ext (Some (u ''0.0053'')) = Inr (Fin False 53 (- 4))"
  "Decimal_ext (Some (u ''100'')) = Inr (Fin False 100 0)"
  by (simp_all add: dec_defs)

lemma decimal_misses_10_00: "re_match decimal_degree_re (u ''10 00 0.0053 N 100 00 00 W'') = None"
  by (simp add: match_defs re_defs)

lemma norm_10_00:
  "normalize_string (u ''10 00 0.0053 N 100 00 00 W'') = u ''10 00 0.0053 N 100 00 00 W''"
  by (simp add: norm_defs)

lemma dms_takes_10_00:
  "map_option (cleanup \<circ> m_groupdict)
     (re_match degree_min_sec_re (u ''10 00 0.0053 N 100 00 00 W'')) =
   Some \<lparr>latdir = Some (u ''N''), latdeg = Some (u ''10''), latmin = u ''00'',
         latsec = u ''0.0053'', longdir = Some (u ''W''), longdeg = Some (u ''100''),
         longmin = u ''00'', longsec = u ''00''\<rparr>"
  by (simp add: match_defs re_defs clean_defs)

lemma spec_10_0053:
  "spec_coordinate (Fin False 10 0) (Fin False 0 0) (Fin False 53 (- 4)) 60 6 = 10000001"
proof -
  have "(value_of (Fin False 10 0) +
      (value_of (Fin False 0 0) + value_of (Fin False 53 (- 4)) / of_nat 60) / 60) * 10 ^ 6 =
      (10000000 :: rat) + 53 / 36"
    by simp
  moreover have "\<lfloor>(10000000 :: rat) + 53 / 36\<rfloor> = 10000001"
    by (simp add: floor_unique)
  ultimately show ?thesis
    by (simp add: spec_coordinate_def spec_round_half_even_def Let_def)
qed

text \<open>
  C3, as stated, fails where it says that the arithmetic is exact. For the fields
  \<^verbatim>\<open>('N', '10', '00', '0.0053', 'W', '100', '00', '00')\<close> the exact latitude is
  10.0000014722..., which rounds to 10.000001; the converter works in \<^verbatim>\<open>ExtendedContext\<close>,
  that is with 9 significant digits, gets 10.0000015 for the sum and quantizes that to
  10.000002. The fields are those of the input \<^verbatim>\<open>"10 00 0.0053 N 100 00 00 W"\<close>.
\<close>

theorem arithmetic_not_exact:
  "Decimal_ext (Some (u ''10'')) = Inr (Fin False 10 0) \<and>
   Decimal_ext (Some (u ''00'')) = Inr (Fin False 0 0) \<and>
   Decimal_ext (Some (u ''0.0053'')) = Inr (Fin False 53 (- 4)) \<and>
   spec_coordinate (Fin False 10 0) (Fin False 0 0) (Fin False 53 (- 4)) 60 6 = 10000001 \<and>
   convert_decimals
     \<lparr>latdir = Some (u ''N''), latdeg = Some (u ''10''), latmin = u ''00'',
      latsec = u ''0.0053'', longdir = Some (u ''W''), longdeg = Some (u ''100''),
      longmin = u ''00'', longsec = u ''00''\<rparr> =
     Inr (Fin False 10000002 (- 6), Fin True 100000000 (- 6)) \<and>
   convert_to_lat_lng
     \<lparr>latdir = Some (u ''N''), latdeg = Some (u ''10''), latmin = u ''00'',
      latsec = u ''0.0053'', longdir = Some (u ''W''), longdeg = Some (u ''100''),
      longmin = u ''00'', longsec = u ''00''\<rparr> =
     Inr (u ''10.000002'', u ''-100.000000'') \<and>
   retrieve_lat_long (u ''10 00 0.0053 N 100 00 00 W'') = Inr (u ''10.000002'', u ''-100.000000'')"
  using retrieve_dms_eval [OF decimal_misses_10_00 norm_10_00 dms_takes_10_00]
  by (simp add: parse_10_0053 spec_10_0053 convert_to_lat_lng_def convert_10_0053 str_10_0053
      del: dec_str.simps)

text \<open>Dropping digits with \<open>round_half_even\<close> gives a nearest number, the even one at a tie.\<close>

lemma round_half_even_nearest:
  "2 * \<bar>int (round_half_even c k) * 10 ^ k - int c\<bar> \<le> 10 ^ k \<and>
   (2 * \<bar>int (round_half_even c k) * 10 ^ k - int c\<bar> = 10 ^ k \<longrightarrow>
      even (round_half_even c k))"
proof -
  define q r where "q = c div 10 ^ k" and "r = c mod 10 ^ k"
  define K :: int where "K = 10 ^ k"
  have "c = q * 10 ^ k + r" using div_mult_mod_eq [of c "10 ^ k"] by (simp add: q_def r_def)
  then have "int c = int (q * 10 ^ k + r)" by simp
  then have c: "int c = int q * K + int r" by (simp add: K_def)
  have "r < 10 ^ k" by (simp add: r_def)
  then have "int r < int (10 ^ k)" by (simp only: of_nat_less_iff)
  then have r: "int r < K" "0 \<le> int r" by (simp_all add: K_def)
  have "(2 * r > 10 ^ k) = (int (2 * r) > int (10 ^ k))" by (simp only: of_nat_less_iff)
  then have gt: "(2 * r > 10 ^ k) = (2 * int r > K)" by (simp add: K_def)
  have "(2 * r = 10 ^ k) = (int (2 * r) = int (10 ^ k))" by (simp only: of_nat_eq_iff)
  then have eq: "(2 * r = 10 ^ k) = (2 * int r = K)" by (simp add: K_def)
  show ?thesis
  proof (cases "2 * r > 10 ^ k \<or> (2 * r = 10 ^ k \<and> odd q)")
    case True
    then have e: "round_half_even c k = q + 1"
      by (simp add: round_half_even_def Let_def q_def r_def)
    then have "int (round_half_even c k) * K - int c = K - int r"
      using c by (simp add: algebra_simps)
    with True gt eq r e show ?thesis unfolding K_def [symmetric] by auto
  next
    case False
    then have e: "round_half_even c k = q"
      by (simp add: round_half_even_def Let_def q_def r_def)
    then have "int (round_half_even c k) * K - int c = - int r"
      using c by (simp add: algebra_simps)
    with False gt eq r e show ?thesis unfolding K_def [symmetric] by auto
  qed
qed

lemma digits_of_digits: "digits_of n \<noteq> [] \<and> list_all is_digit (digits_of n)"
proof (induction n rule: digits_of.induct)
  case (1 n)
  show ?case
  proof (cases "n < 10")
    case True
    then show ?thesis by (subst (1 2) digits_of.simps) (simp add: is_digit_def)
  next
    case False
    have "n mod 10 < 10" by simp
    then have "is_digit (48 + n mod 10)" by (simp add: is_digit_def)
    with False 1 show ?thesis by (subst (1 2) digits_of.simps) simp
  qed
qed

lemma takeWhile_digits_then:
  "list_all is_digit ds \<Longrightarrow> \<not> is_digit x \<Longrightarrow>
   takeWhile is_digit (ds @ x # r) = ds \<and> dropWhile is_digit (ds @ x # r) = x # r"
  by (induction ds) simp_all

lemma takeWhile_all_digits:
  "list_all is_digit ds \<Longrightarrow> takeWhile is_digit ds = ds \<and> dropWhile is_digit ds = []"
  by (induction ds) simp_all

lemma fixed_places_unsigned:
  assumes ip: "ip \<noteq> []" "list_all is_digit ip" and fp: "list_all is_digit fp" "length fp = p"
    and that: "sg = [] \<or> sg = [45]"
  shows "fixed_places p (sg @ ip @ (if p = 0 then [] else 46 # fp))"
proof -
  have nd: "\<not> is_digit 46" "\<not> is_digit 45" by (simp_all add: is_digit_def)
  from ip obtain a as where a: "ip = a # as" "is_digit a" by (cases ip) auto
  then have a45: "a \<noteq> 45" using nd by auto
  let ?body = "ip @ (if p = 0 then [] else 46 # fp)"
  have body: "(if take 1 (sg @ ?body) = [45] then drop 1 (sg @ ?body) else sg @ ?body) = ?body"
    using that a a45 by auto
  have all: "takeWhile is_digit ip = ip" "dropWhile is_digit ip = []"
    using takeWhile_all_digits [OF ip(2)] by blast+
  have pt: "takeWhile is_digit (ip @ 46 # fp) = ip" "dropWhile is_digit (ip @ 46 # fp) = 46 # fp"
    using takeWhile_digits_then [OF ip(2) nd(1), of fp] by blast+
  show ?thesis
  proof (cases "p = 0")
    case True
    with ip(1) show ?thesis
      unfolding fixed_places_def body Let_def by (simp add: all)
  next
    case False
    with ip(1) fp show ?thesis
      unfolding fixed_places_def body Let_def by (simp add: pt)
  qed
qed

text \<open>A decimal with exponent \<open>-p\<close>, for \<open>p\<close> up to 6, is rendered without an exponent.\<close>

lemma dec_str_places:
  assumes "p \<le> 6"
  shows "dec_str (Fin s c (- int p)) =
     (if s then [45] else []) @
     (if length (digits_of c) \<le> p then [48]
      else if p = 0 then digits_of c
      else take (length (digits_of c) - p) (digits_of c)) @
     (if p = 0 then []
      else 46 # (if length (digits_of c) \<le> p
                 then replicate (p - length (digits_of c)) 48 @ digits_of c
                 else drop (length (digits_of c) - p) (digits_of c)))"
proof -
  let ?ds = "digits_of c"
  let ?n = "int (length ?ds)"
  from digits_of_digits [of c] have "?ds \<noteq> []" by simp
  then have n: "0 < length ?ds" by simp
  then have cond: "- int p \<le> 0 \<and> - 6 < - int p + ?n" using assms by linarith
  have unfold: "dec_str (Fin s c (- int p)) =
     (if s then [45] else []) @
     (if - int p + ?n \<le> 0 then [48]
      else if ?n \<le> - int p + ?n then ?ds @ replicate (nat (- int p + ?n - ?n)) 48
      else take (nat (- int p + ?n)) ?ds) @
     (if - int p + ?n \<le> 0 then 46 # replicate (nat (- (- int p + ?n))) 48 @ ?ds
      else if ?n \<le> - int p + ?n then []
      else 46 # drop (nat (- int p + ?n)) ?ds)"
    using cond by (simp only: dec_str.simps Let_def if_True append_Nil2 refl if_P)
  show ?thesis
  proof (cases "length ?ds \<le> p")
    case True
    then have 1: "- int p + ?n \<le> 0" by linarith
    from True n have 2: "p \<noteq> 0" by linarith
    from True have 3: "nat (- (- int p + ?n)) = p - length ?ds" by linarith
    show ?thesis unfolding unfold using True 2 by (simp only: 1 3 if_True if_False)
  next
    case False
    then have 1: "\<not> - int p + ?n \<le> 0" by linarith
    show ?thesis
    proof (cases "p = 0")
      case True
      with n show ?thesis by (simp add: unfold)
    next
      case nz: False
      then have 2: "\<not> ?n \<le> - int p + ?n" by linarith
      from False have 3: "nat (- int p + ?n) = length ?ds - p" by linarith
      show ?thesis unfolding unfold using False nz by (simp only: 1 2 3 if_True if_False)
    qed
  qed
qed

lemma dec_str_fixed:
  assumes "p \<le> 6"
  shows "fixed_places p (dec_str (Fin s c (- int p)))"
proof -
  let ?ds = "digits_of c"
  let ?n = "length ?ds"
  from digits_of_digits [of c] have ne: "?ds \<noteq> []" and dg: "list_all is_digit ?ds" by simp_all
  have sg: "(if s then [45] else []) = [] \<or> (if s then [45] else []) = [45::nat]" by simp
  have z: "list_all is_digit [48]" by (simp add: is_digit_def)
  have zs: "list_all is_digit (replicate k 48 @ ?ds)" for k
    using dg by (auto simp: is_digit_def list_all_iff)
  show ?thesis
  proof (cases "?n \<le> p")
    case True
    with ne have p: "p \<noteq> 0" by (cases ?ds) auto
    from True p have eq: "dec_str (Fin s c (- int p)) =
        (if s then [45] else []) @ [48] @
        (if p = 0 then [] else 46 # (replicate (p - ?n) 48 @ ?ds))"
      by (simp add: dec_str_places [OF assms] del: dec_str.simps)
    show ?thesis unfolding eq
      using True by (intro fixed_places_unsigned z zs sg) simp_all
  next
    case False
    show ?thesis
    proof (cases "p = 0")
      case True
      with False dec_str_places [OF assms, of s c] have eq: "dec_str (Fin s c (- int p)) =
          (if s then [45] else []) @ ?ds @ (if p = 0 then [] else 46 # [])"
        by (simp del: dec_str.simps)
      show ?thesis unfolding eq
        using True by (intro fixed_places_unsigned ne dg sg) simp_all
    next
      case nz: False
      with False have eq: "dec_str (Fin s c (- int p)) =
          (if s then [45] else []) @ take (?n - p) ?ds @
          (if p = 0 then [] else 46 # drop (?n - p) ?ds)"
        by (simp add: dec_str_places [OF assms] del: dec_str.simps)
      show ?thesis unfolding eq
      proof (intro fixed_places_unsigned sg)
        show "take (?n - p) ?ds \<noteq> []" using False ne by simp
        show "list_all is_digit (take (?n - p) ?ds)"
          using dg by (auto simp: list_all_iff dest: in_set_takeD)
        show "list_all is_digit (drop (?n - p) ?ds)"
          using dg by (auto simp: list_all_iff dest: in_set_dropD)
        show "length (drop (?n - p) ?ds) = p" using False by simp
      qed
    qed
  qed
qed

lemma value_of_places:
  "value_of (Fin s c (- int p)) = (if s then - 1 else 1) * of_nat c / 10 ^ p"
  by (cases "p = 0") simp_all

lemma rescale_pad_value:
  assumes "- int p \<le> e"
  shows "value_of (Fin s (c * 10 ^ nat (e + int p)) (- int p)) = value_of (Fin s c e)"
proof (cases "0 \<le> e")
  case True
  then have "nat (e + int p) = nat e + p" by linarith
  with True show ?thesis
    by (simp only: value_of_places) (simp add: power_add)
next
  case False
  define a b where "a = nat (e + int p)" and "b = nat (- e)"
  from False assms have p: "p = a + b" unfolding a_def b_def by linarith
  have "value_of (Fin s (c * 10 ^ a) (- int p)) =
      (if s then - 1 else 1) * of_nat (c * 10 ^ a) / 10 ^ (a + b)"
    by (simp only: value_of_places p)
  also have "\<dots> = (if s then - 1 else 1) * of_nat c / 10 ^ b"
    by (simp add: power_add)
  also have "\<dots> = value_of (Fin s c e)"
    using False by (simp add: b_def)
  finally show ?thesis by (simp add: a_def)
qed

lemma rescale_round_value:
  assumes "e < - int p"
  shows "2 * \<bar>value_of (Fin s (round_half_even c (nat (- int p - e))) (- int p)) -
             value_of (Fin s c e)\<bar> * 10 ^ p \<le> 1 \<and>
         (2 * \<bar>value_of (Fin s (round_half_even c (nat (- int p - e))) (- int p)) -
              value_of (Fin s c e)\<bar> * 10 ^ p = 1 \<longrightarrow>
            even (round_half_even c (nat (- int p - e))))"
proof -
  define k where "k = nat (- int p - e)"
  define c' where "c' = round_half_even c k"
  define D :: int where "D = \<bar>int c' * 10 ^ k - int c\<bar>"
  define sg :: rat where "sg = (if s then - 1 else 1)"
  have sg: "\<bar>sg\<bar> = 1" by (simp add: sg_def)
  from assms have e: "e < 0" and ne: "nat (- e) = k + p" unfolding k_def by linarith+
  have x: "value_of (Fin s c' (- int p)) = sg * of_nat c' / 10 ^ p"
    by (simp only: value_of_places sg_def)
  have v: "value_of (Fin s c e) = sg * of_nat c / 10 ^ (k + p)"
    using e ne by (simp add: sg_def)
  have "value_of (Fin s c' (- int p)) - value_of (Fin s c e) =
      sg * (of_nat c' * 10 ^ k - of_nat c) / 10 ^ (k + p)"
    unfolding x v by (simp add: power_add field_simps)
  also have "of_nat c' * 10 ^ k - of_nat c = (of_int (int c' * 10 ^ k - int c) :: rat)"
    by simp
  finally have "\<bar>value_of (Fin s c' (- int p)) - value_of (Fin s c e)\<bar> =
      of_int D / 10 ^ (k + p)"
    by (simp add: abs_mult sg D_def)
  then have key: "2 * \<bar>value_of (Fin s c' (- int p)) - value_of (Fin s c e)\<bar> * 10 ^ p =
      of_int (2 * D) / 10 ^ k"
    by (simp add: power_add)
  have le: "(of_int (2 * D) / 10 ^ k \<le> (1::rat)) = (2 * D \<le> 10 ^ k)"
  proof -
    have "(of_int (2 * D) / 10 ^ k \<le> (1::rat)) = (of_int (2 * D) \<le> (of_int (10 ^ k) :: rat))"
      by (simp add: divide_le_eq)
    then show ?thesis by (simp only: of_int_le_iff)
  qed
  have eq: "(of_int (2 * D) / 10 ^ k = (1::rat)) = (2 * D = 10 ^ k)"
  proof -
    have "(of_int (2 * D) / 10 ^ k = (1::rat)) = (of_int (2 * D) = (of_int (10 ^ k) :: rat))"
      by (simp add: divide_eq_eq)
    then show ?thesis by (simp only: of_int_eq_iff)
  qed
  from round_half_even_nearest [of c k]
  have "2 * D \<le> 10 ^ k \<and> (2 * D = 10 ^ k \<longrightarrow> even c')"
    by (simp add: D_def c'_def)
  then show ?thesis
    unfolding k_def [symmetric] c'_def [symmetric] key le eq .
qed

text \<open>Every operation of the context leaves at most \<open>p\<close> significant digits.\<close>

lemma less_power_ndigits: "n < 10 ^ ndigits n"
proof (induction n rule: ndigits.induct)
  case (1 n)
  show ?case
  proof (cases "n < 10")
    case True
    then show ?thesis by (subst ndigits.simps) simp
  next
    case False
    with 1 have "n div 10 < 10 ^ ndigits (n div 10)" by simp
    then have "n < 10 * 10 ^ ndigits (n div 10)" by (simp add: div_less_iff_less_mult)
    with False show ?thesis by (subst ndigits.simps) simp
  qed
qed

lemma ndigits_le_less: "ndigits n \<le> p \<Longrightarrow> n < 10 ^ p"
  using less_power_ndigits [of n] power_increasing [of "ndigits n" p "10::nat"]
  by linarith

lemma round_half_even_le: "round_half_even c k \<le> c div 10 ^ k + 1"
  by (simp add: round_half_even_def Let_def)

lemma sig_digits_dec_fix:
  assumes "0 < p"
  shows "sig_digits p (dec_fix p d)"
proof (cases d)
  case (Fin s c e)
  show ?thesis
  proof (cases "c = 0 \<or> \<not> p < ndigits c")
    case True
    then have "c < 10 ^ p" using ndigits_le_less [of c p] by auto
    with True Fin show ?thesis by auto
  next
    case False
    let ?k = "ndigits c - p"
    let ?c' = "round_half_even c ?k"
    from False have nk: "ndigits c = p + ?k" by simp
    from less_power_ndigits [of c] have "c < 10 ^ (p + ?k)" by (simp only: nk [symmetric])
    then have "c < 10 ^ p * 10 ^ ?k" by (simp only: power_add)
    then have "c div 10 ^ ?k < 10 ^ p" by (simp add: less_mult_imp_div_less)
    with round_half_even_le [of c ?k] have le: "?c' \<le> 10 ^ p" by simp
    have "sig_digits p (if p < ndigits ?c' then Fin s (?c' div 10) (e + int ?k + 1)
        else Fin s ?c' (e + int ?k))"
    proof (cases "p < ndigits ?c'")
      case True
      from le have "?c' div 10 \<le> 10 ^ p div 10" by (rule div_le_mono)
      also from assms have "(10::nat) ^ p div 10 = 10 ^ (p - 1)"
        by (cases p) simp_all
      also from assms have "(10::nat) ^ (p - 1) < 10 ^ p" by simp
      finally show ?thesis using True by simp
    next
      case False
      then show ?thesis using ndigits_le_less [of ?c' p] by simp
    qed
    moreover from False Fin have "dec_fix p d =
        (if p < ndigits ?c' then Fin s (?c' div 10) (e + int ?k + 1)
         else Fin s ?c' (e + int ?k))"
      by (simp add: Let_def)
    ultimately show ?thesis by (simp only:)
  qed
qed simp

lemma sig_digits_dec_add: "0 < p \<Longrightarrow> sig_digits p (dec_add p a b)"
  by (cases a; cases b)
    (simp_all add: Let_def sig_digits_dec_fix split: prod.splits del: dec_fix.simps rescale.simps)

lemma sig_digits_dec_mul: "0 < p \<Longrightarrow> sig_digits p (dec_mul p a b)"
  by (cases a; cases b) (simp_all add: sig_digits_dec_fix del: dec_fix.simps)

lemma sig_digits_dms_sum: "sig_digits 9 (dms_sum d m s k)"
  by (simp add: dms_sum_def sig_digits_dec_add)

text \<open>The rounding of the spec, on the value in units of the last place.\<close>

lemma spec_round_of_nat: "spec_round_half_even (of_nat m) = int m"
  by (simp add: spec_round_half_even_def Let_def)

lemma spec_round_div: "spec_round_half_even (of_nat c / 10 ^ k) = int (round_half_even c k)"
proof -
  define K :: nat where "K = 10 ^ k"
  define q r where "q = c div K" and "r = c mod K"
  have K: "0 < K" by (simp add: K_def)
  have c: "c = q * K + r" using div_mult_mod_eq [of c K] by (simp add: q_def r_def)
  have r: "r < K" using K by (simp add: r_def)
  have x: "(of_nat c / 10 ^ k :: rat) = of_nat c / of_nat K" by (simp add: K_def)
  have "\<lfloor>(of_nat c / of_nat K :: rat)\<rfloor> = of_nat (c div K)"
    by (rule floor_divide_of_nat_eq)
  then have fl: "\<lfloor>(of_nat c / of_nat K :: rat)\<rfloor> = int q"
    by (simp only: q_def)
  have fr: "(of_nat c / of_nat K :: rat) - of_int (int q) = of_nat r / of_nat K"
    using K by (simp add: c field_simps)
  have gt: "((1::rat) / 2 < of_nat r / of_nat K) = (K < 2 * r)"
  proof -
    have "((1::rat) / 2 < of_nat r / of_nat K) = ((of_nat K :: rat) < of_nat (2 * r))"
      using K by (simp add: field_simps)
    then show ?thesis by (simp only: of_nat_less_iff)
  qed
  have eq: "(of_nat r / of_nat K = (1::rat) / 2) = (2 * r = K)"
  proof -
    have "(of_nat r / of_nat K = (1::rat) / 2) = ((of_nat (2 * r) :: rat) = of_nat K)"
      using K by (auto simp: field_simps)
    then show ?thesis by (simp only: of_nat_eq_iff)
  qed
  have "spec_round_half_even (of_nat c / of_nat K) =
      (if K < 2 * r \<or> (2 * r = K \<and> odd q) then int q + 1 else int q)"
    unfolding spec_round_half_even_def Let_def fl fr gt eq by simp
  also have "\<dots> = int (round_half_even c k)"
    by (simp add: round_half_even_def Let_def q_def r_def K_def)
  finally show ?thesis by (simp only: x)
qed

lemma ndigits_pos: "0 < ndigits n"
  by (subst ndigits.simps) simp

lemma power_ndigits_le: "0 < n \<Longrightarrow> 10 ^ (ndigits n - 1) \<le> n"
proof (induction n rule: ndigits.induct)
  case (1 n)
  show ?case
  proof (cases "n < 10")
    case True
    with 1(2) show ?thesis by (subst ndigits.simps) simp
  next
    case False
    then have "0 < n div 10" by simp
    with 1(1) False have "10 ^ (ndigits (n div 10) - 1) \<le> n div 10" by simp
    then have "10 * 10 ^ (ndigits (n div 10) - 1) \<le> 10 * (n div 10)" by simp
    also have "\<dots> \<le> n" by simp
    finally have "10 ^ Suc (ndigits (n div 10) - 1) \<le> n" by simp
    moreover have "Suc (ndigits (n div 10) - 1) = ndigits (n div 10)"
      using ndigits_pos [of "n div 10"] by simp
    ultimately have "10 ^ ndigits (n div 10) \<le> n" by simp
    with False show ?thesis by (subst ndigits.simps) simp
  qed
qed

lemma less_power_ndigits_le: "0 < p \<Longrightarrow> n < 10 ^ p \<Longrightarrow> ndigits n \<le> p"
proof (rule ccontr)
  assume p: "0 < p" and n: "n < 10 ^ p" and "\<not> ndigits n \<le> p"
  then have lt: "p \<le> ndigits n - 1" by simp
  show False
  proof (cases "n = 0")
    case True
    with lt p show False by (simp add: ndigits.simps [of 0])
  next
    case False
    then have "10 ^ (ndigits n - 1) \<le> n" using power_ndigits_le by simp
    moreover have "(10::nat) ^ p \<le> 10 ^ (ndigits n - 1)"
      by (rule power_increasing) (use lt in simp_all)
    ultimately show False using n by linarith
  qed
qed

lemma ndigits_gt_iff: "0 < p \<Longrightarrow> p < ndigits n \<longleftrightarrow> 10 ^ p \<le> n"
  using less_power_ndigits_le [of p n] ndigits_le_less [of n p] by fastforce

lemma round_half_even_ge: "c div 10 ^ k \<le> round_half_even c k"
  by (simp add: round_half_even_def Let_def)

lemma round_half_even_0: "round_half_even 0 k = 0"
  by (simp add: round_half_even_def Let_def)

lemma abs_value_scaled:
  "\<bar>value_of (Fin s c e)\<bar> * 10 ^ p =
     (if - int p \<le> e then of_nat (c * 10 ^ nat (e + int p))
      else of_nat c / 10 ^ nat (- int p - e))"
proof (cases "- int p \<le> e")
  case True
  have "\<bar>value_of (Fin s c e)\<bar> = \<bar>value_of (Fin s (c * 10 ^ nat (e + int p)) (- int p))\<bar>"
    by (simp only: rescale_pad_value [OF True])
  also have "\<dots> = of_nat (c * 10 ^ nat (e + int p)) / 10 ^ p"
    by (simp only: value_of_places) (simp add: abs_mult)
  finally show ?thesis using True by simp
next
  case False
  define k where "k = nat (- int p - e)"
  from False have e: "e < 0" and ne: "nat (- e) = k + p" unfolding k_def by linarith+
  have "\<bar>value_of (Fin s c e)\<bar> = of_nat c / 10 ^ (k + p)"
    using e ne by (simp add: abs_mult)
  then have "\<bar>value_of (Fin s c e)\<bar> * 10 ^ p = of_nat c / 10 ^ k"
    by (simp add: power_add)
  with False show ?thesis by (simp add: k_def)
qed

lemma spec_round_rescaled:
  "spec_round_half_even (\<bar>value_of (Fin s c e)\<bar> * 10 ^ p) = int (rescaled c e p)"
proof (cases "- int p \<le> e")
  case True
  then show ?thesis by (simp only: abs_value_scaled rescaled_def if_True spec_round_of_nat)
next
  case False
  then show ?thesis by (simp only: abs_value_scaled rescaled_def if_False spec_round_div)
qed

lemma rescale_rescaled: "rescale (Fin s c e) (- int p) = Fin s (rescaled c e p) (- int p)"
proof (cases "c = 0")
  case True
  then show ?thesis by (simp add: rescaled_def round_half_even_0)
next
  case False
  have "nat (e - - int p) = nat (e + int p)" "nat (- int p - e) = nat (- int p - e)" by simp_all
  with False show ?thesis by (simp add: rescaled_def)
qed

lemma many_digits_rescaled:
  assumes c: "0 < c" and d: "9 < int (ndigits c) + e + int p"
  shows "10 ^ 9 \<le> rescaled c e p"
proof (cases "- int p \<le> e")
  case True
  define a where "a = nat (e + int p)"
  from True d have le: "9 \<le> (ndigits c - 1) + a" unfolding a_def by linarith
  have "(10::nat) ^ 9 \<le> 10 ^ ((ndigits c - 1) + a)"
    by (rule power_increasing) (use le in simp_all)
  also have "\<dots> = 10 ^ (ndigits c - 1) * 10 ^ a" by (simp only: power_add)
  also have "\<dots> \<le> c * 10 ^ a" using power_ndigits_le [OF c] by simp
  finally show ?thesis using True by (simp add: rescaled_def a_def)
next
  case False
  define k where "k = nat (- int p - e)"
  from False d have le: "9 + k \<le> ndigits c - 1" unfolding k_def by linarith
  have "(10::nat) ^ (9 + k) \<le> 10 ^ (ndigits c - 1)"
    by (rule power_increasing) (use le in simp_all)
  also have "\<dots> \<le> c" by (rule power_ndigits_le [OF c])
  finally have "(10::nat) ^ (9 + k) div 10 ^ k \<le> c div 10 ^ k" by (rule div_le_mono)
  moreover have "(10::nat) ^ (9 + k) div 10 ^ k = 10 ^ 9" by (simp only: power_add) simp
  ultimately have "10 ^ 9 \<le> c div 10 ^ k" by simp
  also have "\<dots> \<le> round_half_even c k" by (rule round_half_even_ge)
  finally show ?thesis using False by (simp add: rescaled_def k_def)
qed

text \<open>
  \<^verbatim>\<open>quantize\<close> in a context of 9 digits gives NaN exactly when the rounded coefficient has
  more than 9 digits.
\<close>

lemma quantize_rescaled:
  "quantize 9 (Fin s c e) (- int p) =
     (if 10 ^ 9 \<le> rescaled c e p then NaN else Fin s (rescaled c e p) (- int p))"
proof (cases "c = 0")
  case True
  then have "rescaled c e p = 0" by (simp add: rescaled_def round_half_even_0)
  with True show ?thesis by simp
next
  case nz: False
  then have c: "0 < c" by simp
  have nd: "(9 < ndigits (rescaled c e p)) = (10 ^ 9 \<le> rescaled c e p)"
    by (rule ndigits_gt_iff) simp
  have q: "quantize 9 (Fin s c e) (- int p) =
      (if 9 < int (ndigits c) + e + int p then NaN
       else if 9 < ndigits (rescaled c e p) then NaN else Fin s (rescaled c e p) (- int p))"
    using nz by (simp add: rescale_rescaled del: rescale.simps)
  show ?thesis
  proof (cases "9 < int (ndigits c) + e + int p")
    case True
    then have "10 ^ 9 \<le> rescaled c e p" by (rule many_digits_rescaled [OF c])
    with True show ?thesis by (simp only: q if_True)
  next
    case False
    then show ?thesis by (simp only: q nd if_False)
  qed
qed

text \<open>What \<^verbatim>\<open>quantize\<close> returns, for up to 6 decimal places.\<close>

lemma quantize_quantized:
  assumes "p \<le> 6"
  shows "quantized_to p v (quantize 9 v (- int p))"
proof (cases v)
  case NaN
  then show ?thesis by (simp add: quantized_to_def)
next
  case (Fin s c e)
  define n where "n = rescaled c e p"
  have sr: "spec_round_half_even (\<bar>value_of (Fin s c e)\<bar> * 10 ^ p) = int n"
    by (simp only: spec_round_rescaled n_def)
  have q: "quantize 9 (Fin s c e) (- int p) = (if 10 ^ 9 \<le> n then NaN else Fin s n (- int p))"
    by (simp only: quantize_rescaled n_def)
  have big: "((10::int) ^ 9 \<le> int n) = (10 ^ 9 \<le> n)"
  proof -
    have "((10::int) ^ 9 \<le> int n) = (int (10 ^ 9) \<le> int n)" by simp
    then show ?thesis by (simp only: of_nat_le_iff)
  qed
  have near: "2 * \<bar>value_of (Fin s n (- int p)) - value_of (Fin s c e)\<bar> * 10 ^ p \<le> 1 \<and>
      (2 * \<bar>value_of (Fin s n (- int p)) - value_of (Fin s c e)\<bar> * 10 ^ p = 1 \<longrightarrow> even n)"
  proof (cases "- int p \<le> e")
    case True
    then have "n = c * 10 ^ nat (e + int p)" by (simp add: n_def rescaled_def)
    with rescale_pad_value [OF True, of s c]
    have "value_of (Fin s n (- int p)) - value_of (Fin s c e) = 0" by simp
    then show ?thesis by (simp only:) simp
  next
    case False
    then have lt: "e < - int p" by simp
    from False have n: "n = round_half_even c (nat (- int p - e))"
      by (simp add: n_def rescaled_def)
    from rescale_round_value [OF lt, of s c] show ?thesis unfolding n .
  qed
  show ?thesis
  proof (cases "10 ^ 9 \<le> n")
    case True
    then show ?thesis
      unfolding Fin quantized_to_def decimal.case Let_def sr big q by simp
  next
    case False
    with near dec_str_fixed [OF assms, of s n] show ?thesis
      unfolding Fin quantized_to_def decimal.case Let_def sr big q
      by (simp del: value_of.simps dec_str.simps)
  qed
qed

text \<open>A NaN comes out of the arithmetic only when one goes in.\<close>

lemma dec_fix_NaN_iff: "dec_fix p d = NaN \<longleftrightarrow> d = NaN"
  by (cases d) (simp_all add: Let_def)

lemma rescale_NaN_iff: "rescale d q = NaN \<longleftrightarrow> d = NaN"
  by (cases d) simp_all

lemma dec_add_NaN_iff: "dec_add p a b = NaN \<longleftrightarrow> a = NaN \<or> b = NaN"
  by (cases a; cases b)
    (simp_all add: Let_def dec_fix_NaN_iff rescale_NaN_iff split: prod.splits
      del: dec_fix.simps rescale.simps)

lemma dec_div_NaN_iff: "0 < k \<Longrightarrow> dec_div p a (Fin False k 0) = NaN \<longleftrightarrow> a = NaN"
  by (cases a)
    (simp_all add: Let_def dec_fix_NaN_iff split: prod.splits del: dec_fix.simps)

lemma dec_mul_NaN_iff: "dec_mul p a (Fin s c e) = NaN \<longleftrightarrow> a = NaN"
  by (cases a) (simp_all add: dec_fix_NaN_iff del: dec_fix.simps)

lemma dms_sum_NaN_iff:
  "0 < k \<Longrightarrow> dms_sum d m s k = NaN \<longleftrightarrow> d = NaN \<or> m = NaN \<or> s = NaN"
  by (simp add: dms_sum_def dec_add_NaN_iff dec_div_NaN_iff del: dec_add.simps dec_div.simps)

text \<open>
  C3, amended. For every 8-tuple whose six numeric fields \<^verbatim>\<open>Decimal\<close> reads (a string that is
  not a numeral is read as NaN), the converter returns two strings. The number of decimal
  places is 6 if either seconds field is not the string \<^verbatim>\<open>"00"\<close>, else 3 if either minutes
  field is not \<^verbatim>\<open>"00"\<close>, else 0. The arithmetic is not exact: the signed sum
  \<open>deg + (min + sec / divisor) / 60\<close> is computed operation by operation in a decimal
  context of 9 significant digits, so the value that is quantized has at most 9 significant
  digits; it is NaN exactly when one of the three fields of the coordinate was read as NaN.
  Each result is the rendering of that value quantized: NaN for a NaN, and NaN when the
  value rounded half to even at the chosen number of places needs more than 9 digits;
  otherwise the rounded value, with the sign of the value quantized, in fixed notation with
  exactly that many decimal places, trailing zeros included.
\<close>

theorem quantized_from_nine_digits:
  "\<forall>f d1 m1 s1 d2 m2 s2.
     Decimal_ext (latdeg f) = Inr d1 \<and> Decimal_ext (Some (latmin f)) = Inr m1 \<and>
     Decimal_ext (Some (latsec f)) = Inr s1 \<and> Decimal_ext (longdeg f) = Inr d2 \<and>
     Decimal_ext (Some (longmin f)) = Inr m2 \<and> Decimal_ext (Some (longsec f)) = Inr s2 \<longrightarrow>
     (\<exists>lat lng v1 v2 p.
        p = (if latsec f \<noteq> u ''00'' \<or> longsec f \<noteq> u ''00'' then 6
             else if latmin f \<noteq> u ''00'' \<or> longmin f \<noteq> u ''00'' then 3 else 0) \<and>
        v1 = (if latdir f = Some [83]
              then dec_mul 9 (dms_sum d1 m1 s1 (if dec_gt s1 59 \<or> dec_gt s2 59 then 100 else 60))
                     (Fin True 1 0)
              else dms_sum d1 m1 s1 (if dec_gt s1 59 \<or> dec_gt s2 59 then 100 else 60)) \<and>
        v2 = (if longdir f = Some [87]
              then dec_mul 9 (dms_sum d2 m2 s2 (if dec_gt s1 59 \<or> dec_gt s2 59 then 100 else 60))
                     (Fin True 1 0)
              else dms_sum d2 m2 s2 (if dec_gt s1 59 \<or> dec_gt s2 59 then 100 else 60)) \<and>
        sig_digits 9 v1 \<and> sig_digits 9 v2 \<and>
        (v1 = NaN \<longleftrightarrow> d1 = NaN \<or> m1 = NaN \<or> s1 = NaN) \<and>
        (v2 = NaN \<longleftrightarrow> d2 = NaN \<or> m2 = NaN \<or> s2 = NaN) \<and>
        convert_to_lat_lng f = Inr (dec_str lat, dec_str lng) \<and>
        quantized_to p v1 lat \<and> quantized_to p v2 lng)"
proof (intro allI impI)
  fix f :: fields and d1 m1 s1 d2 m2 s2 :: decimal
  assume h: "Decimal_ext (latdeg f) = Inr d1 \<and> Decimal_ext (Some (latmin f)) = Inr m1 \<and>
     Decimal_ext (Some (latsec f)) = Inr s1 \<and> Decimal_ext (longdeg f) = Inr d2 \<and>
     Decimal_ext (Some (longmin f)) = Inr m2 \<and> Decimal_ext (Some (longsec f)) = Inr s2"
  let ?k = "if dec_gt s1 59 \<or> dec_gt s2 59 then 100 else 60 :: nat"
  let ?p = "if latsec f \<noteq> u ''00'' \<or> longsec f \<noteq> u ''00'' then 6
             else if latmin f \<noteq> u ''00'' \<or> longmin f \<noteq> u ''00'' then 3 else 0 :: nat"
  let ?v1 = "if latdir f = Some [83] then dec_mul 9 (dms_sum d1 m1 s1 ?k) (Fin True 1 0)
             else dms_sum d1 m1 s1 ?k"
  let ?v2 = "if longdir f = Some [87] then dec_mul 9 (dms_sum d2 m2 s2 ?k) (Fin True 1 0)
             else dms_sum d2 m2 s2 ?k"
  have p: "?p \<le> 6" by simp
  have k: "0 < ?k" by simp
  have pp: "precision_places f = ?p" by (simp add: precision_places_def)
  from h have "convert_decimals f = Inr (quantize 9 ?v1 (- int ?p), quantize 9 ?v2 (- int ?p))"
    using convert_decimals_shared [of f d1 m1 s1 d2 m2 s2] by (simp only: Let_def pp)
  then have c: "convert_to_lat_lng f =
      Inr (dec_str (quantize 9 ?v1 (- int ?p)), dec_str (quantize 9 ?v2 (- int ?p)))"
    by (simp add: convert_to_lat_lng_def del: dec_str.simps)
  have s: "sig_digits 9 ?v1" "sig_digits 9 ?v2"
    by (simp_all add: sig_digits_dms_sum sig_digits_dec_mul del: dec_mul.simps)
  have n: "?v1 = NaN \<longleftrightarrow> d1 = NaN \<or> m1 = NaN \<or> s1 = NaN"
    "?v2 = NaN \<longleftrightarrow> d2 = NaN \<or> m2 = NaN \<or> s2 = NaN"
    by (simp_all only: dms_sum_NaN_iff [OF k] dec_mul_NaN_iff if_cancel simp_thms split: if_split)
  from c s n quantize_quantized [OF p, of ?v1] quantize_quantized [OF p, of ?v2]
  show "\<exists>lat lng v1 v2 p.
        p = ?p \<and> v1 = ?v1 \<and> v2 = ?v2 \<and> sig_digits 9 v1 \<and> sig_digits 9 v2 \<and>
        (v1 = NaN \<longleftrightarrow> d1 = NaN \<or> m1 = NaN \<or> s1 = NaN) \<and>
        (v2 = NaN \<longleftrightarrow> d2 = NaN \<or> m2 = NaN \<or> s2 = NaN) \<and>
        convert_to_lat_lng f = Inr (dec_str lat, dec_str lng) \<and>
        quantized_to p v1 lat \<and> quantized_to p v2 lng"
    by blast
qed

text \<open>
  The fields \<^verbatim>\<open>('N', '10', '00', '0.0053', 'W', '100', '00', '00')\<close>: 6 places, the
  latitude 10.000002 is the rounding of the 9-digit sum 10.0000015, and the longitude
  -100.000000 that of -100.
\<close>

lemma sum_10_0053:
  "dms_sum (Fin False 10 0) (Fin False 0 0) (Fin False 53 (- 4)) 60 = Fin False 100000015 (- 7)"
  "dec_mul 9 (dms_sum (Fin False 100 0) (Fin False 0 0) (Fin False 0 0) 60) (Fin True 1 0) =
   Fin True 100 0"
  by (simp_all add: dec_defs)

lemma round_10_0053:
  "spec_round_half_even (\<bar>value_of (Fin False 100000015 (- 7))\<bar> * 10 ^ 6) = 10000002"
  "spec_round_half_even (\<bar>value_of (Fin True 100 0)\<bar> * 10 ^ 6) = 100000000"
  by (simp_all only: spec_round_rescaled) (simp_all add: rescaled_def round_half_even_def)

theorem quantized_from_nine_digits_witness:
  "Decimal_ext (Some (u ''10'')) = Inr (Fin False 10 0) \<and>
   Decimal_ext (Some (u ''00'')) = Inr (Fin False 0 0) \<and>
   Decimal_ext (Some (u ''0.0053'')) = Inr (Fin False 53 (- 4)) \<and>
   Decimal_ext (Some (u ''100'')) = Inr (Fin False 100 0) \<and>
   dms_sum (Fin False 10 0) (Fin False 0 0) (Fin False 53 (- 4)) 60 = Fin False 100000015 (- 7) \<and>
   sig_digits 9 (Fin False 100000015 (- 7)) \<and>
   quantized_to 6 (Fin False 100000015 (- 7)) (Fin False 10000002 (- 6)) \<and>
   quantized_to 6 (Fin True 100 0) (Fin True 100000000 (- 6)) \<and>
   convert_to_lat_lng
     \<lparr>latdir = Some (u ''N''), latdeg = Some (u ''10''), latmin = u ''00'',
      latsec = u ''0.0053'', longdir = Some (u ''W''), longdeg = Some (u ''100''),
      longmin = u ''00'', longsec = u ''00''\<rparr> = Inr (u ''10.000002'', u ''-100.000000'')"
proof -
  let ?f = "\<lparr>latdir = Some (u ''N''), latdeg = Some (u ''10''), latmin = u ''00'',
         latsec = u ''0.0053'', longdir = Some (u ''W''), longdeg = Some (u ''100''),
         longmin = u ''00'', longsec = u ''00''\<rparr>"
  have g: "\<not> dec_gt (Fin False 53 (- 4)) 59" "\<not> dec_gt (Fin False 0 0) 59" by simp_all
  have n: "u ''0.0053'' \<noteq> u ''00''" "Some (u ''N'') \<noteq> Some [83]" "Some (u ''W'') = Some [87]"
    by (simp_all add: u_def)
  from quantized_from_nine_digits [rule_format, of ?f "Fin False 10 0" "Fin False 0 0"
      "Fin False 53 (- 4)" "Fin False 100 0" "Fin False 0 0" "Fin False 0 0"] parse_10_0053
  obtain lat lng v1 v2 p where
    pd: "p = (if latsec ?f \<noteq> u ''00'' \<or> longsec ?f \<noteq> u ''00'' then 6
          else if latmin ?f \<noteq> u ''00'' \<or> longmin ?f \<noteq> u ''00'' then 3 else 0)"
    and vd: "v1 = (if latdir ?f = Some [83]
           then dec_mul 9 (dms_sum (Fin False 10 0) (Fin False 0 0) (Fin False 53 (- 4))
                  (if dec_gt (Fin False 53 (- 4)) 59 \<or> dec_gt (Fin False 0 0) 59 then 100 else 60))
                  (Fin True 1 0)
           else dms_sum (Fin False 10 0) (Fin False 0 0) (Fin False 53 (- 4))
                  (if dec_gt (Fin False 53 (- 4)) 59 \<or> dec_gt (Fin False 0 0) 59 then 100 else 60))"
    and wd: "v2 = (if longdir ?f = Some [87]
           then dec_mul 9 (dms_sum (Fin False 100 0) (Fin False 0 0) (Fin False 0 0)
                  (if dec_gt (Fin False 53 (- 4)) 59 \<or> dec_gt (Fin False 0 0) 59 then 100 else 60))
                  (Fin True 1 0)
           else dms_sum (Fin False 100 0) (Fin False 0 0) (Fin False 0 0)
                  (if dec_gt (Fin False 53 (- 4)) 59 \<or> dec_gt (Fin False 0 0) 59 then 100 else 60))"
    and sd: "sig_digits 9 v1"
    and cv: "convert_to_lat_lng ?f = Inr (dec_str lat, dec_str lng)"
    and qt: "quantized_to p v1 lat" "quantized_to p v2 lng"
    by (auto simp del: dec_str.simps dec_gt.simps dec_mul.simps)
  from pd n have p6: "p = 6" by simp
  from vd n g sum_10_0053 have v: "v1 = Fin False 100000015 (- 7)"
    by (simp del: dec_gt.simps)
  from wd n g sum_10_0053 have w: "v2 = Fin True 100 0"
    by (simp del: dec_gt.simps dec_mul.simps)
  from qt have q: "quantized_to 6 (Fin False 100000015 (- 7)) lat"
    "quantized_to 6 (Fin True 100 0) lng"
    unfolding p6 v w .
  from q(1) have lat: "lat = Fin False 10000002 (- 6)"
    unfolding quantized_to_def decimal.case Let_def round_10_0053 by simp
  from q(2) have lng: "lng = Fin True 100000000 (- 6)"
    unfolding quantized_to_def decimal.case Let_def round_10_0053 by simp
  from sd have "sig_digits 9 (Fin False 100000015 (- 7))"
    unfolding v .
  with q cv parse_10_0053 sum_10_0053(1) show ?thesis
    unfolding lat lng str_10_0053 by (simp only: simp_thms)
qed

text \<open>
  A coordinate of 1000 degrees at 6 decimal places would need 10 digits: the context has 9,
  and the result is NaN.
\<close>

lemma convert_overflow:
  "convert_to_lat_lng
     \<lparr>latdir = Some (u ''N''), latdeg = Some (u ''10''), latmin = u ''00'',
      latsec = u ''01'', longdir = Some (u ''W''), longdeg = Some (u ''1000''),
      longmin = u ''00'', longsec = u ''00''\<rparr> = Inr (u ''10.000278'', u ''NaN'')"
  by (simp add: dec_defs)

section \<open>Scanning a text with two coordinates\<close>

lemma decimal_misses_4630: "re_match decimal_degree_re (u ''4630 NORTH 5705 WEST'') = None"
  by (simp add: match_defs re_defs)

lemma norm_4630: "normalize_string (u ''4630 NORTH 5705 WEST'') = u ''4630 NORTH 5705 WEST''"
  by (simp add: norm_defs)

lemma dms_takes_4630:
  "map_option (cleanup \<circ> m_groupdict) (re_match degree_min_sec_re (u ''4630 NORTH 5705 WEST'')) =
   Some \<lparr>latdir = Some (u ''N''), latdeg = Some (u ''46''), latmin = u ''30'',
         latsec = u ''00'', longdir = Some (u ''W''), longdeg = Some (u ''57''),
         longmin = u ''05'', longsec = u ''00''\<rparr>"
  by (simp add: match_defs re_defs clean_defs)

lemma convert_4630:
  "convert_to_lat_lng
     \<lparr>latdir = Some (u ''N''), latdeg = Some (u ''46''), latmin = u ''30'',
      latsec = u ''00'', longdir = Some (u ''W''), longdeg = Some (u ''57''),
      longmin = u ''05'', longsec = u ''00''\<rparr> =
   Inr (u ''46.500'', u ''-57.083'')"
  by (simp add: dec_defs)

text \<open>
  C1. The doctest of \<^verbatim>\<open>get_replacements\<close> and the spec expect two matches in
  \<^verbatim>\<open>"4630 NORTH 5705 WEST 58147N/07720W"\<close>, with the coordinates (46.500, -57.083) and
  (58.235278, -77.333333). Each of the two coordinates alone is recognized and converted
  to these values. But the anchored pattern has to match the whole text, which it does
  not: the code returns the empty dictionary for this input, whatever the substitution
  function.
\<close>

theorem get_replacements_doctest_empty:
  "get_replacements (u ''4630 NORTH 5705 WEST 58147N/07720W'') sub_function = Inr [] \<and>
   retrieve_lat_long (u ''4630 NORTH 5705 WEST'') = Inr (u ''46.500'', u ''-57.083'') \<and>
   retrieve_lat_long (u ''58147N/07720W'') = Inr (u ''58.235278'', u ''-77.333333'')"
proof (intro conjI)
  show "get_replacements (u ''4630 NORTH 5705 WEST 58147N/07720W'') sub_function = Inr []"
    by (simp add: get_replacements_def norm_doctest dms_finditer re_match_def match_at_def
        dms_doctest)
  show "retrieve_lat_long (u ''4630 NORTH 5705 WEST'') = Inr (u ''46.500'', u ''-57.083'')"
    using retrieve_dms_eval [OF decimal_misses_4630 norm_4630 dms_takes_4630]
    by (simp add: convert_4630)
  show "retrieve_lat_long (u ''58147N/07720W'') = Inr (u ''58.235278'', u ''-77.333333'')"
    using retrieve_dms_eval [OF decimal_misses_58147 norm_58147 dms_takes_58147]
    by (simp add: convert_58147)
qed

section \<open>The decimal-degree path, once taken\<close>

lemma passes_Grp_set: "passes P (Grp n r) (\<lambda>g. g n \<noteq> None)"
  by (auto simp: passes_def)

lemma passes_keeps_set: "passes (\<lambda>g. g n \<noteq> None) r (\<lambda>g. g n \<noteq> None)"
  unfolding passes_def using rmatch_mono by blast

lemma decimal_sets_latitude:
  "passes (\<lambda>g. True) decimal_degree_re (\<lambda>g. g G_latitude \<noteq> None)"
  unfolding decimal_degree_re_def
  apply (rule passes_seqs_Cons [OF passes_any])
  apply (rule passes_seqs_Cons [OF passes_any])
  apply (rule passes_seqs_Cons [OF passes_any])
  apply (rule passes_seqs_Cons [OF passes_any])
  apply (rule passes_seqs_Cons [OF passes_Grp_set passes_keeps_set])
  done

lemma decimal_sets_longitude:
  "passes (\<lambda>g. True) decimal_degree_re (\<lambda>g. g G_longitude \<noteq> None)"
  unfolding decimal_degree_re_def
  apply (rule passes_seqs_Cons [OF passes_any])
  apply (rule passes_seqs_Cons [OF passes_any])
  apply (rule passes_seqs_Cons [OF passes_any])
  apply (rule passes_seqs_Cons [OF passes_any])
  apply (rule passes_seqs_Cons [OF passes_any])
  apply (rule passes_seqs_Cons [OF passes_any])
  apply (rule passes_seqs_Cons [OF passes_any])
  apply (rule passes_seqs_Cons [OF passes_any])
  apply (rule passes_seqs_Cons [OF passes_any])
  apply (rule passes_seqs_Cons [OF passes_any])
  apply (rule passes_seqs_Cons [OF passes_any])
  apply (rule passes_seqs_Cons [OF passes_any])
  apply (rule passes_seqs_Cons [OF passes_Grp_set passes_keeps_set])
  done

lemma decimal_match_numbers:
  assumes "re_match decimal_degree_re s = Some m"
  shows "m_groupdict m G_latitude \<noteq> None" and "m_groupdict m G_longitude \<noteq> None"
proof -
  from assms obtain p' t' where
    "(p', t', m_groupdict m) \<in> set (rmatch decimal_degree_re (0, s, \<lambda>_. None))"
    unfolding re_match_def using match_at_in_set by blast
  with decimal_sets_latitude decimal_sets_longitude
  show "m_groupdict m G_latitude \<noteq> None" and "m_groupdict m G_longitude \<noteq> None"
    unfolding passes_def by blast+
qed

lemma convert_signs_errors:
  "convert_signs parts \<noteq> Inl AttributeError"
  "parts G_latitude \<noteq> None \<Longrightarrow> parts G_longitude \<noteq> None \<Longrightarrow>
   convert_signs parts \<noteq> Inl TypeError"
  by (auto simp: convert_signs_def Decimal_default_def Let_def
      split: sum.splits option.splits parsed.splits)

text \<open>
  C8, amended. \<^verbatim>\<open>retrieve_lat_long\<close> tries the decimal-degree pattern on the input as it
  is given: whenever it matches, the result is what the sign normalizer makes of the match,
  in which both numbers are captured, so that neither the failure of a missing match nor
  that of a missing number can arise; the text normalizer runs only afterwards, before the
  DMS pattern.
\<close>

theorem decimal_path_on_raw_input:
  "(\<forall>s m. re_match decimal_degree_re s = Some m \<longrightarrow>
      retrieve_lat_long s = convert_signs (m_groupdict m) \<and>
      m_groupdict m G_latitude \<noteq> None \<and> m_groupdict m G_longitude \<noteq> None \<and>
      retrieve_lat_long s \<noteq> Inl AttributeError \<and> retrieve_lat_long s \<noteq> Inl TypeError) \<and>
   (\<forall>s. re_match decimal_degree_re s = None \<longrightarrow>
      retrieve_lat_long s =
        (case re_match degree_min_sec_re (normalize_string s) of
           None \<Rightarrow> Inl AttributeError
         | Some m \<Rightarrow> convert_to_lat_lng (cleanup (m_groupdict m))))"
proof (intro conjI allI impI)
  fix s m
  assume m: "re_match decimal_degree_re s = Some m"
  then show r: "retrieve_lat_long s = convert_signs (m_groupdict m)"
    by (rule retrieve_decimal_path)
  from decimal_match_numbers [OF m]
  show n: "m_groupdict m G_latitude \<noteq> None" "m_groupdict m G_longitude \<noteq> None" .
  from r show "retrieve_lat_long s \<noteq> Inl AttributeError"
    by (simp add: convert_signs_errors)
  from r n show "retrieve_lat_long s \<noteq> Inl TypeError"
    by (simp add: convert_signs_errors)
next
  fix s
  assume "re_match decimal_degree_re s = None"
  then show "retrieve_lat_long s =
        (case re_match degree_min_sec_re (normalize_string s) of
           None \<Rightarrow> Inl AttributeError
         | Some m \<Rightarrow> convert_to_lat_lng (cleanup (m_groupdict m)))"
    by (rule retrieve_dms_path)
qed

theorem decimal_path_on_raw_input_witness:
  "re_match decimal_degree_re (u ''43.5 N, 80 W'') \<noteq> None \<and>
   retrieve_lat_long (u ''43.5 N, 80 W'') = Inr (u ''43.5'', u ''-80'') \<and>
   re_match decimal_degree_re (u ''6830N 70W'') = None \<and>
   retrieve_lat_long (u ''6830N 70W'') = Inl AttributeError"
proof -
  obtain m where m: "re_match decimal_degree_re (u ''43.5 N, 80 W'') = Some m"
    and c: "convert_signs (m_groupdict m) = Inr (u ''43.5'', u ''-80'')"
    using decimal_takes_43_5 by (cases "re_match decimal_degree_re (u ''43.5 N, 80 W'')") auto
  have "retrieve_lat_long (u ''43.5 N, 80 W'') = Inr (u ''43.5'', u ''-80'')"
    using decimal_path_on_raw_input [THEN conjunct1, rule_format, OF m] c by simp
  moreover have "retrieve_lat_long (u ''6830N 70W'') = Inl AttributeError"
    using decimal_path_on_raw_input [THEN conjunct2, rule_format, OF decimal_misses_6830]
    by (simp add: norm_6830 dms_misses_6830)
  ultimately show ?thesis using m decimal_misses_6830 by simp
qed

end
